(* ===== verification/Prelude.thy ===== *)
theory Prelude
  imports Complex_Main "HOL-Library.Code_Target_Numeral"
begin

text \<open>
  Shared vocabulary of the development: the named theorem collections the component
  theories feed, decimal digits and the decimal rendering of numbers that Python's
  \<open>str\<close>, \<open>int\<close> and the \<open>format\<close> mini-language use, the thousands grouping of
  the \<open>,\<close> format option, and the generic list lemmas the component proofs share.
  Python strings are modelled as \<open>string\<close>; a character is a Latin-1 code point.
\<close>

declare One_nat_def [simp del]

named_theorems digit_simps "evaluation rules for decimal digits and renderings"

named_theorems model_defs "definitions unfolded when a model is evaluated on a concrete input"

type_synonym pystr = string

section \<open>Decimal digits\<close>

definition is_digit :: "char \<Rightarrow> bool" where
  "is_digit c \<longleftrightarrow> 48 \<le> (of_char c :: nat) \<and> (of_char c :: nat) \<le> 57"

definition digit_val :: "char \<Rightarrow> nat" where
  "digit_val c = of_char c - 48"

definition digit_char :: "nat \<Rightarrow> char" where
  "digit_char d = char_of (48 + d)"

section \<open>Decimal rendering of natural numbers and integers\<close>

text \<open>\<open>show_nat n\<close> is the digit string CPython prints for \<open>n\<close>: no leading zero, and
  \<open>''0''\<close> for zero. \<open>read_digits\<close> reads a digit string back.\<close>

fun show_nat :: "nat \<Rightarrow> string" where
  "show_nat n = (if n < 10 then [digit_char n] else show_nat (n div 10) @ [digit_char (n mod 10)])"

declare show_nat.simps [simp del]

definition show_int :: "int \<Rightarrow> string" where
  "show_int i = (if i < 0 then CHR ''-'' # show_nat (nat (- i)) else show_nat (nat i))"

definition read_digits :: "string \<Rightarrow> nat" where
  "read_digits s = foldl (\<lambda>acc c. 10 * acc + digit_val c) 0 s"

section \<open>Thousands grouping\<close>

text \<open>
  The \<open>,\<close> option of Python's format mini-language inserts a comma between every
  group of three digits of the integer part, counted from the right. \<open>commas_rev\<close>
  works on the reversed digit string, so that the groups start at its head.
\<close>

fun commas_rev :: "string \<Rightarrow> string" where
  "commas_rev (a # b # c # d # rest) = a # b # c # CHR '','' # commas_rev (d # rest)"
| "commas_rev xs = xs"

definition group3 :: "string \<Rightarrow> string" where
  "group3 ds = rev (commas_rev (rev ds))"

text \<open>\<open>s.split(sep)\<close> for a one-character separator: the pieces between separators,
  empty ones included.\<close>

fun split_on :: "char \<Rightarrow> string \<Rightarrow> string list" where
  "split_on c [] = [[]]"
| "split_on c (x # xs) =
     (if x = c then [] # split_on c xs
      else (case split_on c xs of p # ps \<Rightarrow> (x # p) # ps | [] \<Rightarrow> [[x]]))"

section \<open>Exceptions as values\<close>

text \<open>Sequencing of computations that may raise: the first exception (\<open>Inl\<close>) is the
  result, as an uncaught Python exception ends the enclosing computation.\<close>

definition ebind :: "'e + 'a \<Rightarrow> ('a \<Rightarrow> 'e + 'b) \<Rightarrow> 'e + 'b" where
  "ebind m f = (case m of Inl e \<Rightarrow> Inl e | Inr a \<Rightarrow> f a)"

section \<open>Lemmas on digits, renderings and grouping\<close>


lemma ebind_Inl [simp]: "ebind (Inl e) f = Inl e"
  by (simp add: ebind_def)

lemma ebind_Inr [simp]: "ebind (Inr a) f = f a"
  by (simp add: ebind_def)

lemma ebind_eq_Inr:
  "ebind m f = Inr b \<longleftrightarrow> (\<exists>a. m = Inr a \<and> f a = Inr b)"
  by (cases m) simp_all

lemma of_char_digit_char [digit_simps]:
  "d < 10 \<Longrightarrow> (of_char (digit_char d) :: nat) = 48 + d"
  by (simp add: digit_char_def take_bit_nat_eq_self)

lemma digit_char_eval [digit_simps]:
  "digit_char 0 = CHR ''0''" "digit_char 1 = CHR ''1''" "digit_char 2 = CHR ''2''"
  "digit_char 3 = CHR ''3''" "digit_char 4 = CHR ''4''" "digit_char 5 = CHR ''5''"
  "digit_char 6 = CHR ''6''" "digit_char 7 = CHR ''7''" "digit_char 8 = CHR ''8''"
  "digit_char 9 = CHR ''9''"
  by (rule of_char_eqI [where ?'a = nat], simp add: of_char_digit_char)+

lemmas digit_eval [digit_simps] = is_digit_def digit_val_def

lemma digit_val_digit_char [simp, digit_simps]:
  "d < 10 \<Longrightarrow> digit_val (digit_char d) = d"
  by (simp add: digit_val_def of_char_digit_char)

lemma is_digit_digit_char [simp, digit_simps]:
  "d < 10 \<Longrightarrow> is_digit (digit_char d)"
  by (simp add: is_digit_def of_char_digit_char)

lemma digit_char_inj [simp]:
  "d < 10 \<Longrightarrow> e < 10 \<Longrightarrow> digit_char d = digit_char e \<longleftrightarrow> d = e"
  by (metis digit_val_digit_char)

lemma digit_val_less [simp]: "is_digit c \<Longrightarrow> digit_val c < 10"
  unfolding is_digit_def digit_val_def by linarith

lemma digit_char_digit_val [simp]: "is_digit c \<Longrightarrow> digit_char (digit_val c) = c"
  by (simp add: is_digit_def digit_val_def digit_char_def)

lemma digit_char_not_comma [simp]: "d < 10 \<Longrightarrow> digit_char d \<noteq> CHR '',''"
  using is_digit_digit_char [of d] by (auto simp: is_digit_def)

lemma digit_char_not_minus [simp]: "d < 10 \<Longrightarrow> digit_char d \<noteq> CHR ''-''"
  using is_digit_digit_char [of d] by (auto simp: is_digit_def)

lemma read_digits_snoc [simp]:
  "read_digits (s @ [c]) = 10 * read_digits s + digit_val c"
  by (simp add: read_digits_def)

lemma read_digits_Nil [simp]: "read_digits [] = 0"
  by (simp add: read_digits_def)

lemma read_digits_single [simp]: "read_digits [c] = digit_val c"
  by (simp add: read_digits_def)

lemma show_nat_small [digit_simps]: "n < 10 \<Longrightarrow> show_nat n = [digit_char n]"
  by (simp add: show_nat.simps)

lemma show_nat_big [digit_simps]:
  "\<not> n < 10 \<Longrightarrow> show_nat n = show_nat (n div 10) @ [digit_char (n mod 10)]"
  by (subst show_nat.simps) simp

lemma read_show_nat [simp]: "read_digits (show_nat n) = n"
proof (induction n rule: show_nat.induct)
  case (1 n)
  then show ?case
    by (cases "n < 10") (simp_all add: show_nat_small show_nat_big)
qed

lemma show_nat_digits [simp]: "c \<in> set (show_nat n) \<Longrightarrow> is_digit c"
proof (induction n rule: show_nat.induct)
  case (1 n)
  then show ?case
    by (cases "n < 10") (auto simp: show_nat_small show_nat_big)
qed

lemma show_nat_ne [simp]: "show_nat n \<noteq> []"
  by (cases "n < 10") (simp_all add: show_nat_small show_nat_big)

lemma show_nat_inj [simp]: "show_nat m = show_nat n \<longleftrightarrow> m = n"
  by (metis read_show_nat)

lemma comma_notin_show_nat [simp]: "CHR '','' \<notin> set (show_nat n)"
  using show_nat_digits [of "CHR '',''" n] by (auto simp: is_digit_def)

lemma minus_notin_show_nat [simp]: "CHR ''-'' \<notin> set (show_nat n)"
  using show_nat_digits [of "CHR ''-''" n] by (auto simp: is_digit_def)

lemma length_show_nat_pow:
  "n < 10 ^ k \<Longrightarrow> 0 < k \<Longrightarrow> length (show_nat n) \<le> k"
proof (induction n arbitrary: k rule: show_nat.induct)
  case (1 n)
  show ?case
  proof (cases "n < 10")
    case True
    with "1.prems" show ?thesis by (simp add: show_nat_small)
  next
    case False
    define j where "j = k - 1"
    have k: "k = Suc j" using "1.prems"(2) by (simp add: j_def)
    have j: "0 < j"
    proof (rule ccontr)
      assume "\<not> 0 < j"
      with k "1.prems"(1) have "n < 10" by simp
      with False show False by simp
    qed
    from "1.prems"(1) k have "n < 10 ^ j * 10" by simp
    then have "n div 10 < 10 ^ j"
      by (simp add: less_mult_imp_div_less)
    with "1.IH" False j have "length (show_nat (n div 10)) \<le> j" by blast
    with False k show ?thesis by (simp add: show_nat_big)
  qed
qed

lemma group3_short [simp]: "length ds \<le> 3 \<Longrightarrow> group3 ds = ds"
proof -
  assume "length ds \<le> 3"
  then have "commas_rev (rev ds) = rev ds"
    by (cases "rev ds" rule: commas_rev.cases) auto
  then show ?thesis by (simp add: group3_def)
qed

text \<open>The structure of a grouped string: the last three digits are split off by a comma
  and the rest is grouped again; a string of at most three digits is left alone.\<close>

lemma commas_rev_Nil_iff [simp]: "commas_rev xs = [] \<longleftrightarrow> xs = []"
  by (induction xs rule: commas_rev.induct) simp_all

lemma group3_Nil_iff [simp]: "group3 ds = [] \<longleftrightarrow> ds = []"
  by (simp add: group3_def)

lemma show_nat_4:
  assumes "1000 \<le> n" "n < 10000"
  shows "show_nat n = [digit_char (n div 1000), digit_char (n div 100 mod 10),
                       digit_char (n div 10 mod 10), digit_char (n mod 10)]"
proof -
  have "\<not> n < 10" "\<not> n div 10 < 10" "\<not> n div 10 div 10 < 10" "n div 10 div 10 div 10 < 10"
    using assms by linarith+
  then show ?thesis
    by (simp add: show_nat_big show_nat_small div_mult2_eq [symmetric])
qed

lemma T_notin_show_nat [simp]: "CHR ''T'' \<notin> set (show_nat n)"
  using show_nat_digits [of "CHR ''T''" n] by (auto simp: is_digit_def)

lemma ebind_map_sum:
  "ebind (map_sum id f r) g = ebind r (\<lambda>x. g (f x))"
  by (cases r) simp_all

lemma ebind_assoc: "ebind (ebind r f) g = ebind r (\<lambda>x. ebind (f x) g)"
  by (cases r) simp_all

lemma map_sum_id_ebind: "map_sum id f r = ebind r (\<lambda>x. Inr (f x))"
  by (cases r) simp_all

end
