(* ===== verification/PyFloat.thy ===== *)
theory PyFloat
  imports Prelude
begin

text \<open>
  A model of CPython's \<open>float\<close>, an IEEE 754 binary64 value, as far as the service
  uses it: conversion from \<open>int\<close> (\<open>float(n)\<close>, \<open>PyLong_AsDouble\<close>), from
  \<open>str\<close> (\<open>float(s)\<close>, \<open>PyOS_string_to_double\<close>), the arithmetic of the
  coordinate transform, fixed-point formatting with grouping (\<open>"{:,.0f}".format\<close>)
  and the shortest round-trip \<open>repr\<close> that \<open>str\<close> prints.
  A finite value \<open>Fin s m e\<close> is \<open>(-1)^s * m * 2^e\<close>; every operation rounds the exact
  result to nearest, ties to even, as the hardware does, into the canonical form
  \<open>wf_float\<close> of a double (normal: \<open>2^52 \<le> m < 2^53\<close>; subnormal: \<open>e = -1074\<close>;
  zero: \<open>m = 0\<close>). The lemmas at the end show the rounding facts the formatters rely
  on: integers up to \<open>2^53\<close> are exact, \<open>2^1024\<close> overflows, and \<open>rne_div\<close> and
  \<open>round_int\<close> give the nearest integer, the even one at a tie.
  The sign of a NaN is not modelled: no output the service produces depends on it.
\<close>

datatype pyfloat = Fin bool nat int | Inf bool | NaN

definition wf_float :: "pyfloat \<Rightarrow> bool" where
  "wf_float f = (case f of
     Fin s m e \<Rightarrow> (m = 0 \<and> e = 0) \<or> (e = -1074 \<and> 0 < m \<and> m < 2 ^ 52)
                 \<or> (-1074 \<le> e \<and> e \<le> 971 \<and> 2 ^ 52 \<le> m \<and> m < 2 ^ 53)
   | _ \<Rightarrow> True)"

section \<open>Exact values\<close>

definition pow2 :: "int \<Rightarrow> rat" where
  "pow2 e = (if 0 \<le> e then 2 ^ nat e else 1 / 2 ^ nat (- e))"

definition fin_val :: "bool \<Rightarrow> nat \<Rightarrow> int \<Rightarrow> rat" where
  "fin_val s m e = (if s then - 1 else 1) * of_nat m * pow2 e"

text \<open>The rational a finite double denotes; \<open>None\<close> for infinities and NaN.\<close>

fun float_val :: "pyfloat \<Rightarrow> rat option" where
  "float_val (Fin s m e) = Some (fin_val s m e)"
| "float_val _ = None"

section \<open>Rounding to nearest, ties to even\<close>

text \<open>\<open>nbits n\<close> is the number of binary digits of \<open>n\<close>; \<open>ndig b n\<close> the number of
  base-\<open>b\<close> digits.\<close>

fun ndig :: "nat \<Rightarrow> nat \<Rightarrow> nat" where
  "ndig b n = (if n = 0 \<or> b < 2 then 0 else Suc (ndig b (n div b)))"

declare ndig.simps [simp del]

abbreviation nbits :: "nat \<Rightarrow> nat" where
  "nbits \<equiv> ndig 2"

text \<open>\<open>pow_ge b num den k\<close>: the quotient \<open>num / den\<close> is at least \<open>b ^ k\<close>.\<close>

definition pow_ge :: "nat \<Rightarrow> nat \<Rightarrow> nat \<Rightarrow> int \<Rightarrow> bool" where
  "pow_ge b num den k =
     (if 0 \<le> k then den * b ^ nat k \<le> num else den \<le> num * b ^ nat (- k))"

text \<open>\<open>flog b num den\<close> is \<open>\<lfloor>log_b (num / den)\<rfloor>\<close> for positive \<open>num\<close>, \<open>den\<close>:
  the digit counts bound it to two candidates, and one comparison picks the right one.\<close>

definition flog :: "nat \<Rightarrow> nat \<Rightarrow> nat \<Rightarrow> int" where
  "flog b num den =
     (let t = int (ndig b num) - int (ndig b den)
      in if pow_ge b num den t then t else t - 1)"

text \<open>Integer division rounded to nearest, ties to even.\<close>

definition rne_div :: "nat \<Rightarrow> nat \<Rightarrow> nat" where
  "rne_div n d =
     (let q = n div d; r = n mod d
      in if d < 2 * r \<or> (2 * r = d \<and> odd q) then Suc q else q)"

text \<open>
  \<open>round_pos s num den\<close> is the double nearest to \<open>(-1)^s * num / den\<close>: the exponent
  \<open>e\<close> is chosen so that the significand has 53 bits (or \<open>e = -1074\<close> for a
  subnormal), the significand is the rounded quotient, a carry to \<open>2^53\<close> moves into
  the exponent, and a result of \<open>2^1024\<close> or more is an infinity.
\<close>

definition round_pos :: "bool \<Rightarrow> nat \<Rightarrow> nat \<Rightarrow> pyfloat" where
  "round_pos s num den =
     (if num = 0 then Fin s 0 0
      else
        let e = max (flog 2 num den - 52) (-1074);
            m = rne_div (num * 2 ^ nat (- e)) (den * 2 ^ nat e);
            (m', e') = (if m = 2 ^ 53 then (2 ^ 52, e + 1) else (m, e))
        in if 971 < e' then Inf s else if m' = 0 then Fin s 0 0 else Fin s m' e')"

text \<open>A decimal \<open>(-1)^s * n * 10^x\<close> rounded to a double: a float literal of the
  source, or the value of a decimal string.\<close>

definition dec_to_float :: "bool \<Rightarrow> nat \<Rightarrow> int \<Rightarrow> pyfloat" where
  "dec_to_float s n x = round_pos s (n * 10 ^ nat x) (10 ^ nat (- x))"

section \<open>Arithmetic\<close>

text \<open>Each operation computes the exact result and rounds it once. An exact zero sum
  is \<open>+0.0\<close> unless both operands are negative; a product takes the exclusive or of
  the signs.\<close>

definition fneg :: "pyfloat \<Rightarrow> pyfloat" where
  "fneg f = (case f of Fin s m e \<Rightarrow> Fin (\<not> s) m e | Inf s \<Rightarrow> Inf (\<not> s) | NaN \<Rightarrow> NaN)"

fun fmul :: "pyfloat \<Rightarrow> pyfloat \<Rightarrow> pyfloat" where
  "fmul (Fin s1 m1 e1) (Fin s2 m2 e2) =
     round_pos (s1 \<noteq> s2) (m1 * m2 * 2 ^ nat (e1 + e2)) (2 ^ nat (- (e1 + e2)))"
| "fmul (Fin s1 m1 e1) (Inf s2) = (if m1 = 0 then NaN else Inf (s1 \<noteq> s2))"
| "fmul (Inf s1) (Fin s2 m2 e2) = (if m2 = 0 then NaN else Inf (s1 \<noteq> s2))"
| "fmul (Inf s1) (Inf s2) = Inf (s1 \<noteq> s2)"
| "fmul _ _ = NaN"

definition signed_int :: "bool \<Rightarrow> nat \<Rightarrow> int" where
  "signed_int s m = (if s then - int m else int m)"

fun fadd :: "pyfloat \<Rightarrow> pyfloat \<Rightarrow> pyfloat" where
  "fadd (Fin s1 m1 e1) (Fin s2 m2 e2) =
     (let e = min e1 e2;
          a = signed_int s1 m1 * 2 ^ nat (e1 - e) + signed_int s2 m2 * 2 ^ nat (e2 - e)
      in if a = 0 then Fin (s1 \<and> s2) 0 0
         else round_pos (a < 0) (nat \<bar>a\<bar> * 2 ^ nat e) (2 ^ nat (- e)))"
| "fadd (Fin s1 m1 e1) (Inf s2) = Inf s2"
| "fadd (Inf s1) (Fin s2 m2 e2) = Inf s1"
| "fadd (Inf s1) (Inf s2) = (if s1 = s2 then Inf s1 else NaN)"
| "fadd _ _ = NaN"

definition fsub :: "pyfloat \<Rightarrow> pyfloat \<Rightarrow> pyfloat" where
  "fsub x y = fadd x (fneg y)"

fun fdiv :: "pyfloat \<Rightarrow> pyfloat \<Rightarrow> pyfloat" where
  "fdiv (Fin s1 m1 e1) (Fin s2 m2 e2) =
     (if m2 = 0 then (if m1 = 0 then NaN else Inf (s1 \<noteq> s2))
      else round_pos (s1 \<noteq> s2) (m1 * 2 ^ nat (e1 - e2)) (m2 * 2 ^ nat (e2 - e1)))"
| "fdiv (Fin s1 m1 e1) (Inf s2) = Fin (s1 \<noteq> s2) 0 0"
| "fdiv (Inf s1) (Fin s2 m2 e2) = Inf (s1 \<noteq> s2)"
| "fdiv _ _ = NaN"

text \<open>Python's \<open>/\<close> on floats raises \<open>ZeroDivisionError\<close> for a zero divisor instead of
  returning an infinity.\<close>

definition py_truediv :: "pyfloat \<Rightarrow> pyfloat \<Rightarrow> pyfloat option" where
  "py_truediv x y = (case y of Fin s m e \<Rightarrow> if m = 0 then None else Some (fdiv x y) | _ \<Rightarrow> Some (fdiv x y))"

text \<open>Python converts an int operand of mixed arithmetic with \<open>float()\<close> first.\<close>

definition of_pyint :: "int \<Rightarrow> pyfloat" where
  "of_pyint i = round_pos (i < 0) (nat \<bar>i\<bar>) 1"

section \<open>Conversion from int\<close>

text \<open>
  \<open>float(n)\<close> for a Python int rounds to nearest and raises \<open>OverflowError\<close>
  ("int too large to convert to float") when the rounded value does not fit.
\<close>

definition int_to_float :: "int \<Rightarrow> pyfloat option" where
  "int_to_float i =
     (case round_pos (i < 0) (nat \<bar>i\<bar>) 1 of
        Inf _ \<Rightarrow> None
      | f \<Rightarrow> Some f)"

section \<open>Conversion from str: \<open>float(s)\<close>\<close>

text \<open>
  \<open>PyFloat_FromString\<close>: Unicode white space (for Latin-1: the codes 9 to 13,
  28 to 32, 133 and 160) is stripped at both ends; if the
  rest contains \<open>_\<close>, each underscore must sit between two digits
  (\<open>_Py_string_to_number_with_underscores\<close>) and is removed; the result must be
  consumed whole by \<open>_Py_dg_strtod\<close> (sign, digits with an optional point, an
  optional exponent with at least one digit) or, when that reads no digit at all,
  by \<open>_Py_parse_inf_or_nan\<close> (\<open>inf\<close>, \<open>infinity\<close>, \<open>nan\<close>, any case).
  The decimal is rounded correctly; a result out of range is an infinity or a zero.
\<close>

definition py_space :: "char \<Rightarrow> bool" where
  "py_space c \<longleftrightarrow> (of_char c :: nat) \<in> {9, 10, 11, 12, 13, 28, 29, 30, 31, 32, 133, 160}"

definition py_strip :: "string \<Rightarrow> string" where
  "py_strip s = rev (dropWhile py_space (rev (dropWhile py_space s)))"

fun underscores_ok :: "char \<Rightarrow> string \<Rightarrow> bool" where
  "underscores_ok prev [] = (prev \<noteq> CHR ''_'')"
| "underscores_ok prev (c # cs) =
     (if c = CHR ''_'' then is_digit prev \<and> underscores_ok c cs
      else (prev \<noteq> CHR ''_'' \<or> is_digit c) \<and> underscores_ok c cs)"

definition ascii_lower :: "char \<Rightarrow> char" where
  "ascii_lower c = (if 65 \<le> (of_char c :: nat) \<and> (of_char c :: nat) \<le> 90
                    then char_of ((of_char c :: nat) + 32) else c)"

definition split_sign :: "string \<Rightarrow> bool \<times> string" where
  "split_sign t = (case t of
     c # r \<Rightarrow> if c = CHR ''-'' then (True, r) else if c = CHR ''+'' then (False, r) else (False, t)
   | [] \<Rightarrow> (False, []))"

text \<open>The exponent part: empty, or \<open>e\<close>/\<open>E\<close>, an optional sign and at least one digit,
  ending the string.\<close>

definition parse_exponent :: "string \<Rightarrow> int option" where
  "parse_exponent r =
     (case r of
        [] \<Rightarrow> Some 0
      | c # r' \<Rightarrow>
          if c = CHR ''e'' \<or> c = CHR ''E'' then
            (let (neg, ds) = split_sign r'
             in if ds \<noteq> [] \<and> list_all is_digit ds
                then Some (if neg then - int (read_digits ds) else int (read_digits ds))
                else None)
          else None)"

text \<open>\<open>Some (Some (n, x))\<close>: the decimal \<open>n * 10^x\<close>; \<open>Some None\<close>: digits were read
  but the string does not end there (an error); \<open>None\<close>: no digit at all.\<close>

definition parse_decimal :: "string \<Rightarrow> (nat \<times> int) option option" where
  "parse_decimal r =
     (let ip = takeWhile is_digit r; r1 = dropWhile is_digit r;
          (fp, r2) = (case r1 of c # r' \<Rightarrow> if c = CHR ''.'' then (takeWhile is_digit r', dropWhile is_digit r')
                                               else ([], r1)
                      | [] \<Rightarrow> ([], []))
      in if ip = [] \<and> fp = [] then None
         else Some (map_option (\<lambda>x. (read_digits (ip @ fp), x - int (length fp)))
                               (parse_exponent r2)))"

definition parse_inf_nan :: "bool \<Rightarrow> string \<Rightarrow> pyfloat option" where
  "parse_inf_nan neg r =
     (let l = map ascii_lower r
      in if l = ''inf'' \<or> l = ''infinity'' then Some (Inf neg)
         else if l = ''nan'' then Some NaN else None)"

definition strtod_whole :: "string \<Rightarrow> pyfloat option" where
  "strtod_whole t =
     (let (neg, r) = split_sign t
      in case parse_decimal r of
           Some (Some (n, x)) \<Rightarrow> Some (dec_to_float neg n x)
         | Some None \<Rightarrow> None
         | None \<Rightarrow> parse_inf_nan neg r)"

definition float_of_str :: "string \<Rightarrow> pyfloat option" where
  "float_of_str s =
     (let t = py_strip s
      in if CHR ''_'' \<in> set t
         then (if underscores_ok (CHR 0x00) t then strtod_whole (filter (\<lambda>c. c \<noteq> CHR ''_'') t) else None)
         else strtod_whole t)"

section \<open>Fixed-point formatting: \<open>"{:,.0f}".format(x)\<close>\<close>

text \<open>
  The value is rounded to an integer (to nearest, ties to even, on the exact binary
  value), printed in decimal with a comma between groups of three digits, and prefixed
  by \<open>-\<close> when the sign bit is set, also for a result of zero (\<open>-0.0\<close> and
  \<open>-0.4\<close> both print as \<open>-0\<close>). Infinities print as \<open>inf\<close>, \<open>-inf\<close>; NaN as \<open>nan\<close>.
\<close>

definition round_int :: "nat \<Rightarrow> int \<Rightarrow> nat" where
  "round_int m e = (if 0 \<le> e then m * 2 ^ nat e else rne_div m (2 ^ nat (- e)))"

fun format_f0_grouped :: "pyfloat \<Rightarrow> string" where
  "format_f0_grouped (Fin s m e) =
     (if s then ''-'' else []) @ group3 (show_nat (round_int m e))"
| "format_f0_grouped (Inf s) = (if s then ''-inf'' else ''inf'')"
| "format_f0_grouped NaN = ''nan''"

section \<open>Shortest round-trip repr: \<open>repr(x)\<close>, \<open>str(x)\<close>\<close>

text \<open>
  \<open>float_repr\<close> (\<open>PyOS_double_to_string(x, 'r', 0, Py_DTSF_ADD_DOT_0)\<close>) prints the
  shortest decimal that reads back as the same double and, among those, the one nearest
  to it (ties to an even last digit). At precision \<open>p\<close> only the two \<open>p\<close>-digit
  neighbours \<open>lo\<close>, \<open>lo + 1\<close> of the value can be nearest, so each precision tries those
  two; seventeen digits always suffice for a double, where the nearest is taken.
  \<open>decpt\<close> is the position of the decimal point relative to the digit string:
  exponent notation is used when \<open>decpt \<le> -4\<close> or \<open>16 < decpt\<close>.
\<close>

definition prec_cands :: "nat \<Rightarrow> int \<Rightarrow> int \<Rightarrow> nat \<Rightarrow> nat \<times> nat \<times> nat \<times> int" where
  "prec_cands m e k p =
     (let sc = k - int p;
          n = m * 2 ^ nat e * 10 ^ nat (- sc);
          d = 2 ^ nat (- e) * 10 ^ nat sc
      in (n div d, n mod d, d, sc))"

definition try_prec :: "nat \<Rightarrow> int \<Rightarrow> int \<Rightarrow> nat \<Rightarrow> (nat \<times> int) option" where
  "try_prec m e k p =
     (let (lo, r, d, sc) = prec_cands m e k p;
          rt = (\<lambda>c. dec_to_float False c sc = Fin False m e);
          lo_ok = rt lo; hi_ok = (r \<noteq> 0 \<and> rt (Suc lo))
      in if lo_ok \<and> hi_ok then Some (if 2 * r < d \<or> (2 * r = d \<and> even lo) then lo else Suc lo, sc)
         else if lo_ok then Some (lo, sc)
         else if hi_ok then Some (Suc lo, sc)
         else None)"

fun repr_digits :: "nat \<Rightarrow> nat \<Rightarrow> nat \<Rightarrow> int \<Rightarrow> int \<Rightarrow> nat \<times> int" where
  "repr_digits 0 p m e k =
     (let (lo, r, d, sc) = prec_cands m e k p
      in (if d < 2 * r \<or> (2 * r = d \<and> odd lo) then Suc lo else lo, sc))"
| "repr_digits (Suc f) p m e k =
     (case try_prec m e k p of Some r \<Rightarrow> r | None \<Rightarrow> repr_digits f (Suc p) m e k)"

definition strip_zeros :: "string \<Rightarrow> string" where
  "strip_zeros ds = rev (dropWhile (\<lambda>c. c = CHR ''0'') (rev ds))"

definition exp_suffix :: "int \<Rightarrow> string" where
  "exp_suffix x =
     CHR ''e'' # (if x < 0 then CHR ''-'' else CHR ''+'')
       # (let t = show_nat (nat \<bar>x\<bar>) in if length t < 2 then CHR ''0'' # t else t)"

definition repr_body :: "string \<Rightarrow> int \<Rightarrow> string" where
  "repr_body ds decpt =
     (if decpt \<le> -4 \<or> 16 < decpt then
        hd ds # (if tl ds = [] then [] else CHR ''.'' # tl ds) @ exp_suffix (decpt - 1)
      else if decpt \<le> 0 then ''0.'' @ replicate (nat (- decpt)) (CHR ''0'') @ ds
      else if length ds \<le> nat decpt then ds @ replicate (nat decpt - length ds) (CHR ''0'') @ ''.0''
      else take (nat decpt) ds @ CHR ''.'' # drop (nat decpt) ds)"

fun float_repr :: "pyfloat \<Rightarrow> string" where
  "float_repr (Fin s m e) =
     (if s then ''-'' else []) @
     (if m = 0 then ''0.0''
      else let k = flog 10 (m * 2 ^ nat e) (2 ^ nat (- e)) + 1;
               (c, sc) = repr_digits 16 1 m e k;
               ds = show_nat c
           in repr_body (strip_zeros ds) (int (length ds) + sc))"
| "float_repr (Inf s) = (if s then ''-inf'' else ''inf'')"
| "float_repr NaN = ''nan''"

section \<open>Lemmas: digit counts, exact rounding of integers\<close>

lemma ndig_simps:
  "ndig b 0 = 0"
  "2 \<le> b \<Longrightarrow> 0 < n \<Longrightarrow> ndig b n = Suc (ndig b (n div b))"
  by (simp_all add: ndig.simps)

lemma ndig_bounds:
  assumes "2 \<le> b" "0 < n"
  shows "b ^ (ndig b n - 1) \<le> n \<and> n < b ^ ndig b n"
  using assms
proof (induction b n rule: ndig.induct)
  case (1 b n)
  show ?case
  proof (cases "n < b")
    case True
    then have "n div b = 0" by simp
    with "1.prems" have "ndig b n = 1" by (simp add: ndig_simps)
    with True "1.prems" show ?thesis by simp
  next
    case False
    then have pos: "0 < n div b" using "1.prems" by (simp add: div_greater_zero_iff)
    from "1.IH" "1.prems" pos obtain k where k: "k = ndig b (n div b)"
      and ih: "b ^ (k - 1) \<le> n div b" "n div b < b ^ k" by auto
    have k0: "0 < k"
    proof (rule ccontr)
      assume "\<not> 0 < k"
      with ih(2) pos show False by simp
    qed
    have nd: "ndig b n = Suc k" using "1.prems" k by (simp add: ndig_simps)
    have "b ^ k = b * b ^ (k - 1)" using k0 by (simp add: power_eq_if)
    also have "\<dots> \<le> b * (n div b)" using ih(1) by simp
    also have "\<dots> \<le> n" by (rule times_div_less_eq_dividend)
    finally have lo: "b ^ k \<le> n" .
    have "b * (n div b) + n mod b = n" by (rule mult_div_mod_eq)
    moreover have "n mod b < b" using "1.prems"(1) by simp
    moreover have "b * (n div b + 1) = b * (n div b) + b" by (simp add: algebra_simps)
    ultimately have "n < b * (n div b + 1)" by linarith
    also have "\<dots> \<le> b * b ^ k" using ih(2) by (intro mult_le_mono2) simp
    finally show ?thesis using lo nd by simp
  qed
qed
lemma rne_div_exact [simp]: "0 < d \<Longrightarrow> rne_div (k * d) d = k"
  by (simp add: rne_div_def)

lemma rne_div_1 [simp]: "rne_div n 1 = n"
  by (simp add: rne_div_def)

lemma ndig_one [simp]: "2 \<le> b \<Longrightarrow> ndig b 1 = 1"
  by (simp add: ndig_simps)

lemma flog_den1:
  assumes "2 \<le> b" "0 < n"
  shows "flog b n 1 = int (ndig b n) - 1"
proof -
  have nd: "0 < ndig b n" using assms by (simp add: ndig_simps)
  have "b ^ (ndig b n - 1) \<le> n" using ndig_bounds [OF assms] by simp
  moreover have "nat (int (ndig b n) - 1) = ndig b n - 1" using nd by simp
  ultimately have h: "b ^ nat (int (ndig b n) - 1) \<le> n" by simp
  have "0 \<le> int (ndig b n) - 1" using nd by simp
  with h assms(1) show ?thesis
    by (simp add: flog_def pow_ge_def Let_def del: One_nat_def)
qed

lemma ndig_le_pow:
  assumes "2 \<le> b" "n < b ^ k"
  shows "ndig b n \<le> k"
proof (cases "n = 0")
  case True then show ?thesis by (simp add: ndig_simps)
next
  case False
  have "b ^ (ndig b n - 1) \<le> n" using ndig_bounds [of b n] assms False by simp
  with assms(2) have "b ^ (ndig b n - 1) < b ^ k" by linarith
  moreover have "1 < b" using assms(1) by simp
  ultimately have "ndig b n - 1 < k" by (simp add: power_strict_increasing_iff del: One_nat_def)
  then show ?thesis by simp
qed

lemma round_pos_nat_small:
  assumes "0 < n" "n < 2 ^ 53"
  shows "round_pos s n 1 = Fin s (n * 2 ^ (53 - ndig 2 n)) (int (ndig 2 n) - 53)"
proof -
  let ?d = "ndig 2 n"
  have d53: "?d \<le> 53" using ndig_le_pow [of 2 n 53] assms by simp
  have d0: "0 < ?d" using assms by (simp add: ndig_simps)
  have fl: "flog 2 n 1 = int ?d - 1" using flog_den1 [of 2 n] assms by simp
  have e: "max (flog 2 n 1 - 52) (-1074) = int ?d - 53" using fl d53 by simp
  have "n < 2 ^ ?d" using ndig_bounds [of 2 n] assms by simp
  then have "n * 2 ^ (53 - ?d) < 2 ^ ?d * 2 ^ (53 - ?d)" by simp
  also have "\<dots> = 2 ^ 53" using d53 by (simp add: power_add [symmetric])
  finally have lt: "n * 2 ^ (53 - ?d) < 2 ^ 53" .
  have m0: "n * 2 ^ (53 - ?d) \<noteq> 0" using assms by simp
  have "nat (- (int ?d - 53)) = 53 - ?d" and "nat (int ?d - 53) = 0" using d53 by simp_all
  then show ?thesis
    using assms lt m0 d53 by (simp add: round_pos_def e Let_def del: One_nat_def)
qed

lemma round_pos_2_53: "round_pos s (2 ^ 53) 1 = Fin s (2 ^ 52) 1"
proof -
  let ?d = "ndig 2 (2 ^ 53)"
  have b: "2 ^ (?d - 1) \<le> (2::nat) ^ 53" "(2::nat) ^ 53 < 2 ^ ?d"
    using ndig_bounds [of 2 "2 ^ 53"] by simp_all
  from b(1) have "?d - 1 \<le> 53" by (rule power_le_imp_le_exp [rotated]) simp
  moreover from b(2) have "53 < ?d" by (rule power_less_imp_less_exp [rotated]) simp
  ultimately have nd: "?d = 54" by simp
  have fl: "flog 2 (2 ^ 53) 1 = 53" using flog_den1 [of 2 "2 ^ 53"] nd by simp
  have "rne_div (2 ^ 53) (2 ^ 1) = 2 ^ 52"
    using rne_div_exact [of "2 ^ 1" "2 ^ 52"] by (simp add: power_add [symmetric])
  moreover have "flog 2 9007199254740992 1 = 53" using fl by simp
  ultimately show ?thesis by (simp add: round_pos_def Let_def del: One_nat_def)
qed

lemma round_int_scaled: "round_int (n * 2 ^ k) (- int k) = n"
  by (simp add: round_int_def)

lemma fin_val_scaled: "fin_val s (n * 2 ^ k) (- int k) = (if s then - of_nat n else of_nat n)"
  by (simp add: fin_val_def pow2_def)

lemma round_pos_nat_exact:
  assumes "n \<le> 2 ^ 53"
  shows "\<exists>m e. round_pos s n 1 = Fin s m e \<and> round_int m e = n
                \<and> fin_val s m e = (if s then - of_nat n else of_nat n)"
proof -
  consider "n = 0" | "0 < n \<and> n < 2 ^ 53" | "n = 2 ^ 53" using assms by linarith
  then show ?thesis
  proof cases
    case 1
    then show ?thesis by (simp add: round_pos_def round_int_def fin_val_def)
  next
    case 2
    let ?k = "53 - ndig 2 n"
    have d: "ndig 2 n \<le> 53" using ndig_le_pow [of 2 n 53] 2 by simp
    then have e: "int (ndig 2 n) - 53 = - int ?k" by simp
    have r: "round_pos s n 1 = Fin s (n * 2 ^ ?k) (- int ?k)"
      using round_pos_nat_small [of n s] 2 by (simp only: e)
    show ?thesis
      by (intro exI [of _ "n * 2 ^ ?k"] exI [of _ "- int ?k"])
         (simp only: r round_int_scaled fin_val_scaled simp_thms)
  next
    case 3
    then have r: "round_pos s n 1 = Fin s (2 ^ 52) 1" by (simp only: round_pos_2_53)
    have "round_int (2 ^ 52) 1 = n" and "fin_val s (2 ^ 52) 1 = (if s then - of_nat n else of_nat n)"
      using 3 by (simp_all add: round_int_def fin_val_def pow2_def)
    with r show ?thesis by blast
  qed
qed

lemma int_to_float_exact:
  assumes "\<bar>i\<bar> \<le> 2 ^ 53"
  shows "\<exists>m e. int_to_float i = Some (Fin (i < 0) m e) \<and> round_int m e = nat \<bar>i\<bar>
                \<and> fin_val (i < 0) m e = of_int i"
proof -
  have "nat \<bar>i\<bar> \<le> 2 ^ 53" using assms by (simp add: nat_le_iff)
  from round_pos_nat_exact [OF this, of "i < 0"] obtain m e where
    r: "round_pos (i < 0) (nat \<bar>i\<bar>) 1 = Fin (i < 0) m e" and ri: "round_int m e = nat \<bar>i\<bar>"
      and fv: "fin_val (i < 0) m e = (if i < 0 then - of_nat (nat \<bar>i\<bar>) else of_nat (nat \<bar>i\<bar>))"
    by blast
  have "(if i < 0 then - of_nat (nat \<bar>i\<bar>) else of_nat (nat \<bar>i\<bar>)) = (of_int i :: rat)"
    by (cases "i < 0") simp_all
  with fv have "fin_val (i < 0) m e = of_int i" by simp
  moreover have "int_to_float i = Some (Fin (i < 0) m e)" using r by (simp add: int_to_float_def)
  ultimately show ?thesis using ri by blast
qed

lemma format_int_float:
  assumes "\<bar>i\<bar> \<le> 2 ^ 53"
  shows "map_option format_f0_grouped (int_to_float i)
           = Some ((if i < 0 then ''-'' else []) @ group3 (show_nat (nat \<bar>i\<bar>)))"
  using int_to_float_exact [OF assms] by auto

lemma round_pos_overflow:
  assumes "2 ^ 1024 \<le> n"
  shows "round_pos s n 1 = Inf s"
proof -
  have n0: "0 < n" using assms by (metis not_le not_less_zero zero_less_power pos2 order.strict_trans2 gr0I)
  have "2 ^ 1024 < (2::nat) ^ ndig 2 n" using assms ndig_bounds [of 2 n] n0 by simp
  then have "1024 < ndig 2 n" by (rule power_less_imp_less_exp [rotated]) simp
  moreover have "flog 2 n 1 = int (ndig 2 n) - 1" using flog_den1 [of 2 n] n0 by simp
  ultimately have "971 < max (flog 2 n 1 - 52) (-1074)" by simp
  then show ?thesis using n0 by (auto simp: round_pos_def Let_def split: prod.split)
qed

lemma int_to_float_overflow: "2 ^ 1024 \<le> \<bar>i\<bar> \<Longrightarrow> int_to_float i = None"
  using round_pos_overflow [of "nat \<bar>i\<bar>" "i < 0"]
  by (simp add: int_to_float_def le_nat_iff)


lemma rne_div_nearest:
  assumes "0 < d"
  shows "2 * \<bar>int (rne_div n d) * int d - int n\<bar> < int d
         \<or> (2 * \<bar>int (rne_div n d) * int d - int n\<bar> = int d \<and> even (rne_div n d))"
proof -
  define q r where "q = n div d" and "r = n mod d"
  have n: "int n = int q * int d + int r" unfolding q_def r_def
    by (metis of_nat_add of_nat_mult div_mult_mod_eq)
  have r: "r < d" using assms by (simp add: r_def)
  show ?thesis
  proof (cases "d < 2 * r \<or> (2 * r = d \<and> odd q)")
    case True
    then have "rne_div n d = Suc q" by (simp add: rne_div_def Let_def q_def r_def)
    moreover have "int (Suc q) * int d - int n = int d - int r" using n by (simp add: algebra_simps)
    ultimately show ?thesis using True r by auto
  next
    case False
    then have "rne_div n d = q" by (simp add: rne_div_def Let_def q_def r_def)
    moreover have "int q * int d - int n = - int r" using n by simp
    ultimately show ?thesis using False r by auto
  qed
qed

lemma round_int_nearest:
  "2 * \<bar>of_nat (round_int m e) - fin_val False m e\<bar> < 1
   \<or> (2 * \<bar>of_nat (round_int m e) - fin_val False m e\<bar> = 1 \<and> even (round_int m e))"
proof (cases "0 \<le> e")
  case True
  then show ?thesis by (simp add: round_int_def fin_val_def pow2_def)
next
  case False
  define D where "D = (2::nat) ^ nat (- e)"
  define k where "k = rne_div m D"
  define z where "z = int k * int D - int m"
  have D0: "0 < D" by (simp add: D_def)
  have k: "round_int m e = k" using False by (simp add: round_int_def k_def D_def)
  have v: "fin_val False m e = of_nat m / of_nat D" using False by (simp add: fin_val_def pow2_def D_def)
  have x: "of_nat k - of_nat m / of_nat D = (of_int z :: rat) / of_nat D"
    using D0 by (simp add: z_def diff_divide_distrib)
  have ax: "2 * \<bar>(of_int z :: rat) / of_nat D\<bar> = of_int (2 * \<bar>z\<bar>) / of_nat D"
    by (simp add: abs_divide)
  have lt: "(of_int (2 * \<bar>z\<bar>) :: rat) / of_nat D < 1 \<longleftrightarrow> 2 * \<bar>z\<bar> < int D"
  proof -
    have "(of_int (2 * \<bar>z\<bar>) :: rat) < of_int (int D) \<longleftrightarrow> 2 * \<bar>z\<bar> < int D" by (rule of_int_less_iff)
    then show ?thesis using D0 by (simp add: divide_less_eq)
  qed
  have eq: "(of_int (2 * \<bar>z\<bar>) :: rat) / of_nat D = 1 \<longleftrightarrow> 2 * \<bar>z\<bar> = int D"
  proof -
    have "(of_int (2 * \<bar>z\<bar>) :: rat) = of_int (int D) \<longleftrightarrow> 2 * \<bar>z\<bar> = int D" by (rule of_int_eq_iff)
    then show ?thesis using D0 by (simp add: divide_eq_eq)
  qed
  have "2 * \<bar>z\<bar> < int D \<or> (2 * \<bar>z\<bar> = int D \<and> even k)"
    using rne_div_nearest [OF D0, of m] by (simp add: k_def z_def)
  then show ?thesis
    unfolding k v x ax lt eq .
qed

lemma format_f0_grouped_ne: "format_f0_grouped f \<noteq> []"
  by (cases f) simp_all

lemma float_repr_ne: "float_repr f \<noteq> []"
  by (cases f) (auto simp: repr_body_def Let_def split: prod.split)

end
