(* ===== verification/PyValue.thy ===== *)
theory PyValue
  imports PyFloat
begin

text \<open>
  The Python values the service receives: the request body is JSON decoded by the web
  framework into \<open>dict\<close>, \<open>list\<close>, \<open>str\<close>, \<open>int\<close>, \<open>float\<close>, \<open>bool\<close> and \<open>None\<close>
  (\<open>jval\<close>). This theory models what the service code does with such values:
  truthiness (\<open>if v\<close>, \<open>a or b\<close>), \<open>dict.get\<close>, comparison with \<open>""\<close>, and
  \<open>str(v)\<close> / \<open>repr(v)\<close>, which can raise \<open>ValueError\<close> for an int of more than
  4300 digits (CPython's default \<open>sys.get_int_max_str_digits()\<close>). Errors are values of
  \<open>pyexc\<close>; a computation that may raise returns \<open>pyexc + 'a\<close>, \<open>Inl\<close> the exception.
\<close>

datatype jval =
    JNull
  | JBool bool
  | JInt int
  | JFloat pyfloat
  | JStr string
  | JList "jval list"
  | JObj "(string \<times> jval) list"

text \<open>A Python \<open>dict\<close> decoded from a JSON object: an association list in insertion
  order (Python dicts iterate in that order).\<close>

type_synonym pydict = "(string \<times> jval) list"

text \<open>The exceptions the modelled code can raise, with the message \<open>str(e)\<close> shows.\<close>

datatype pyexc =
    ValueError string
  | ImageError string

fun exc_message :: "pyexc \<Rightarrow> string" where
  "exc_message (ValueError m) = m"
| "exc_message (ImageError m) = m"

section \<open>Truthiness, dict access, equality with the empty string\<close>

fun truthy :: "jval \<Rightarrow> bool" where
  "truthy JNull = False"
| "truthy (JBool b) = b"
| "truthy (JInt i) = (i \<noteq> 0)"
| "truthy (JFloat (Fin s m e)) = (m \<noteq> 0)"
| "truthy (JFloat _) = True"
| "truthy (JStr s) = (s \<noteq> [])"
| "truthy (JList xs) = (xs \<noteq> [])"
| "truthy (JObj kvs) = (kvs \<noteq> [])"

text \<open>\<open>d.get(k)\<close> is \<open>None\<close> for a missing key; \<open>d.get(k, dflt)\<close> returns \<open>dflt\<close>.\<close>

definition dict_get_default :: "pydict \<Rightarrow> string \<Rightarrow> jval \<Rightarrow> jval" where
  "dict_get_default d k dflt = (case map_of d k of Some v \<Rightarrow> v | None \<Rightarrow> dflt)"

definition dict_get :: "pydict \<Rightarrow> string \<Rightarrow> jval" where
  "dict_get d k = dict_get_default d k JNull"

text \<open>\<open>a or b\<close>: \<open>a\<close> when it is truthy, otherwise \<open>b\<close> (whatever \<open>b\<close> is).\<close>

definition py_or :: "jval \<Rightarrow> jval \<Rightarrow> jval" where
  "py_or a b = (if truthy a then a else b)"

definition is_empty_str :: "jval \<Rightarrow> bool" where
  "is_empty_str v \<longleftrightarrow> v = JStr []"

section \<open>str and repr\<close>

text \<open>\<open>str(i)\<close> for an int: decimal, with the digit limit of CPython 3.11 and later.\<close>

definition int_digit_limit :: nat where
  "int_digit_limit = 4300"

definition int_str :: "int \<Rightarrow> pyexc + string" where
  "int_str i =
     (if int_digit_limit < length (show_nat (nat \<bar>i\<bar>))
      then Inl (ValueError (''Exceeds the limit (4300 digits) for integer string conversion; ''
                           @ ''use sys.set_int_max_str_digits() to increase the limit''))
      else Inr (show_int i))"

definition hex_digit :: "nat \<Rightarrow> char" where
  "hex_digit d = (if d < 10 then digit_char d else char_of (87 + d))"

text \<open>Latin-1 characters that \<open>str.isprintable\<close> rejects: controls, DEL, the C1
  controls, no-break space and soft hyphen.\<close>

definition printable :: "char \<Rightarrow> bool" where
  "printable c \<longleftrightarrow>
     (let n = (of_char c :: nat) in 32 \<le> n \<and> n \<noteq> 127 \<and> \<not> (128 \<le> n \<and> n \<le> 160) \<and> n \<noteq> 173)"

definition escape_char :: "char \<Rightarrow> char \<Rightarrow> string" where
  "escape_char q c =
     (if c = q \<or> c = CHR 0x5C then [CHR 0x5C, c]
      else if c = CHR 0x09 then [CHR 0x5C, CHR ''t'']
      else if c = CHR 0x0A then [CHR 0x5C, CHR ''n'']
      else if c = CHR 0x0D then [CHR 0x5C, CHR ''r'']
      else if printable c then [c]
      else [CHR 0x5C, CHR ''x'', hex_digit ((of_char c :: nat) div 16), hex_digit ((of_char c :: nat) mod 16)])"

text \<open>\<open>repr(s)\<close>: single quotes, unless the string contains a single quote and no
  double quote.\<close>

definition str_repr :: "string \<Rightarrow> string" where
  "str_repr s =
     (let q = (if CHR 0x27 \<in> set s \<and> CHR 0x22 \<notin> set s then CHR 0x22 else CHR 0x27)
      in q # concat (map (escape_char q) s) @ [q])"

definition join_sep :: "string \<Rightarrow> string list \<Rightarrow> string" where
  "join_sep sep xs = (case xs of [] \<Rightarrow> [] | x # ys \<Rightarrow> x @ concat (map (\<lambda>y. sep @ y) ys))"

text \<open>\<open>repr\<close> of a container reprs its elements in order; the first exception wins.\<close>

fun py_repr :: "jval \<Rightarrow> pyexc + string"
and repr_elems :: "jval list \<Rightarrow> pyexc + string list"
and repr_items :: "(string \<times> jval) list \<Rightarrow> pyexc + string list" where
  "py_repr JNull = Inr ''None''"
| "py_repr (JBool b) = Inr (if b then ''True'' else ''False'')"
| "py_repr (JInt i) = int_str i"
| "py_repr (JFloat f) = Inr (float_repr f)"
| "py_repr (JStr s) = Inr (str_repr s)"
| "py_repr (JList xs) =
     (case repr_elems xs of Inl e \<Rightarrow> Inl e | Inr rs \<Rightarrow> Inr (''['' @ join_sep '', '' rs @ '']''))"
| "py_repr (JObj kvs) =
     (case repr_items kvs of Inl e \<Rightarrow> Inl e | Inr rs \<Rightarrow> Inr (''{'' @ join_sep '', '' rs @ ''}''))"
| "repr_elems [] = Inr []"
| "repr_elems (x # xs) =
     (case py_repr x of Inl e \<Rightarrow> Inl e
      | Inr r \<Rightarrow> (case repr_elems xs of Inl e \<Rightarrow> Inl e | Inr rs \<Rightarrow> Inr (r # rs)))"
| "repr_items [] = Inr []"
| "repr_items ((k, v) # kvs) =
     (case py_repr v of Inl e \<Rightarrow> Inl e
      | Inr r \<Rightarrow> (case repr_items kvs of Inl e \<Rightarrow> Inl e
                  | Inr rs \<Rightarrow> Inr ((str_repr k @ '': '' @ r) # rs)))"

text \<open>\<open>str(v)\<close> is \<open>repr(v)\<close> except for a string, which is itself; \<open>format(v, '')\<close>
  (an f-string field without a format spec) is \<open>str(v)\<close> for every JSON value.\<close>

definition py_str :: "jval \<Rightarrow> pyexc + string" where
  "py_str v = (case v of JStr s \<Rightarrow> Inr s | _ \<Rightarrow> py_repr v)"

text \<open>\<open>float(v)\<close>: \<open>None\<close> where Python raises (\<open>TypeError\<close> for \<open>None\<close>, a
  list or a dict; \<open>ValueError\<close> for a string that is not a float; \<open>OverflowError\<close>
  for an int too large). A bool is the int 0 or 1.\<close>

fun py_float :: "jval \<Rightarrow> pyfloat option" where
  "py_float (JBool b) = Some (of_pyint (if b then 1 else 0))"
| "py_float (JInt i) = int_to_float i"
| "py_float (JFloat f) = Some f"
| "py_float (JStr s) = float_of_str s"
| "py_float _ = None"

text \<open>Values the JSON decoder can produce: ints within the digit limit (a longer literal
  makes \<open>json.loads\<close> fail before the service sees it), canonical finite or infinite
  doubles, objects without repeated keys.\<close>

fun wf_jval :: "jval \<Rightarrow> bool" where
  "wf_jval (JInt i) = (length (show_nat (nat \<bar>i\<bar>)) \<le> int_digit_limit)"
| "wf_jval (JFloat f) = wf_float f"
| "wf_jval (JList xs) = (\<forall>x \<in> set xs. wf_jval x)"
| "wf_jval (JObj kvs) = (distinct (map fst kvs) \<and> (\<forall>kv \<in> set kvs. wf_jval (snd kv)))"
| "wf_jval _ = True"

definition wf_dict :: "pydict \<Rightarrow> bool" where
  "wf_dict d \<longleftrightarrow> list_all (\<lambda>kv. wf_jval (snd kv)) d"

section \<open>Lemmas: str never raises on decoded values\<close>

lemma py_repr_wf:
  shows "wf_jval v \<Longrightarrow> \<exists>r. py_repr v = Inr r"
    and "\<forall>x \<in> set xs. wf_jval x \<Longrightarrow> \<exists>rs. repr_elems xs = Inr rs"
    and "\<forall>kv \<in> set kvs. wf_jval (snd kv) \<Longrightarrow> \<exists>rs. repr_items kvs = Inr rs"
proof (induction v and xs and kvs rule: py_repr_repr_elems_repr_items.induct)
  case (3 i)
  then show ?case by (simp add: int_str_def)
qed (auto split: sum.splits)

lemma py_str_wf: "wf_jval v \<Longrightarrow> \<exists>t. py_str v = Inr t"
  using py_repr_wf(1) [of v] by (cases v) (auto simp: py_str_def)

lemma wf_dict_lookup: "wf_dict d \<Longrightarrow> map_of d k = Some v \<Longrightarrow> wf_jval v"
  using map_of_SomeD [of d k v] by (auto simp: wf_dict_def list_all_iff)

lemma dict_get_default_wf: "wf_dict d \<Longrightarrow> wf_jval dflt \<Longrightarrow> wf_jval (dict_get_default d k dflt)"
  by (auto simp: dict_get_default_def wf_dict_lookup split: option.split)

lemma dict_get_wf: "wf_dict d \<Longrightarrow> wf_jval (dict_get d k)"
  by (simp add: dict_get_def dict_get_default_wf)

lemma py_repr_ne: "py_repr v = Inr r \<Longrightarrow> r \<noteq> []"
  by (cases v) (auto simp: int_str_def show_int_def float_repr_ne str_repr_def Let_def split: sum.splits if_splits)

lemma py_str_ne: "py_str v = Inr r \<Longrightarrow> v \<noteq> JStr [] \<Longrightarrow> r \<noteq> []"
  using py_repr_ne [of v r] by (cases v) (auto simp: py_str_def)

end
