(* ===== verification/PyDate.thy ===== *)
theory PyDate
  imports Prelude
begin

text \<open>
  The parts of Python's \<open>datetime\<close> that \<open>format_date\<close> calls, modelled on CPython 3.11
  on Linux: \<open>datetime.strptime(s, '%Y-%m-%d')\<close> (the regular expression that
  \<open>_strptime\<close> builds for this format, matched with Python's first-match backtracking,
  then the range checks of the \<open>date\<close> constructor), \<open>datetime.fromisoformat(s)\<close>
  (the C parser of \<open>_datetimemodule.c\<close>, which reads the UTF-8 bytes of the string
  through a NUL-terminated buffer: \<open>buf_at bs i\<close> is that buffer), and
  \<open>strftime('%d/%m/%Y')\<close> (glibc prints \<open>%Y\<close> without padding). A parse that
  succeeds yields the calendar date \<open>(year, month, day)\<close>; time and offset fields are
  checked as the constructors check them and then dropped, since the format prints the
  date only.
\<close>

type_synonym ymd = "int \<times> int \<times> int"

section \<open>The proleptic Gregorian calendar\<close>

definition is_leap :: "int \<Rightarrow> bool" where
  "is_leap y \<longleftrightarrow> y mod 4 = 0 \<and> (y mod 100 \<noteq> 0 \<or> y mod 400 = 0)"

definition days_in_month :: "int \<Rightarrow> int \<Rightarrow> int" where
  "days_in_month y m =
     (if m = 2 then (if is_leap y then 29 else 28)
      else if m \<in> {4, 6, 9, 11} then 30 else 31)"

definition valid_date :: "int \<Rightarrow> int \<Rightarrow> int \<Rightarrow> bool" where
  "valid_date y m d \<longleftrightarrow> 1 \<le> y \<and> y \<le> 9999 \<and> 1 \<le> m \<and> m \<le> 12 \<and> 1 \<le> d \<and> d \<le> days_in_month y m"

definition days_before_year :: "int \<Rightarrow> int" where
  "days_before_year y = (let z = y - 1 in z * 365 + z div 4 - z div 100 + z div 400)"

definition days_before_month :: "int \<Rightarrow> int \<Rightarrow> int" where
  "days_before_month y m = sum_list (map (\<lambda>k. days_in_month y (int k)) [1..<nat m])"

definition ymd_to_ord :: "int \<Rightarrow> int \<Rightarrow> int \<Rightarrow> int" where
  "ymd_to_ord y m d = days_before_year y + days_before_month y m + d"

text \<open>\<open>ord_to_ymd n\<close>: the date with proleptic ordinal \<open>n\<close>. The year is within three of
  \<open>n * 400 div 146097\<close> (146097 days make 400 years); the month is the last one whose
  first day is not after \<open>n\<close>.\<close>

definition ord_to_ymd :: "int \<Rightarrow> ymd" where
  "ord_to_ymd n =
     (let g = max 1 (n * 400 div 146097 - 1);
          y = (if n \<le> days_before_year (g + 1) then g
               else if n \<le> days_before_year (g + 2) then g + 1
               else if n \<le> days_before_year (g + 3) then g + 2 else g + 3);
          doy = n - days_before_year y;
          m = last (filter (\<lambda>k. days_before_month y k < doy) [1, 2, 3, 4, 5, 6, 7, 8, 9, 10, 11, 12])
      in (y, m, doy - days_before_month y m))"

definition iso_week1_monday :: "int \<Rightarrow> int" where
  "iso_week1_monday y =
     (let first_day = ymd_to_ord y 1 1; first_weekday = (first_day + 6) mod 7;
          monday = first_day - first_weekday
      in if 3 < first_weekday then monday + 7 else monday)"

text \<open>\<open>iso_to_ymd\<close>: an ISO year, week and weekday as a calendar date, with the checks of
  the C helper (week 53 only in years that have one).\<close>

definition iso_to_ymd :: "int \<Rightarrow> int \<Rightarrow> int \<Rightarrow> ymd option" where
  "iso_to_ymd y w d =
     (if y < 1 \<or> 9999 < y then None
      else if (w \<le> 0 \<or> 53 \<le> w) \<and>
              \<not> (w = 53 \<and> (let fw = (ymd_to_ord y 1 1 + 6) mod 7 in fw = 3 \<or> (fw = 2 \<and> is_leap y)))
        then None
      else if d \<le> 0 \<or> 8 \<le> d then None
      else Some (ord_to_ymd (iso_week1_monday y + (w - 1) * 7 + d - 1)))"

section \<open>strptime(s, '%Y-%m-%d')\<close>

text \<open>
  \<open>_strptime\<close> compiles the format to
  \<^verbatim>\<open>(?P<Y>\d\d\d\d)-(?P<m>1[0-2]|0[1-9]|[1-9])-(?P<d>3[0-1]|[1-2]\d|0[1-9]|[1-9]| [1-9])\<close>
  and calls \<open>match\<close>: the alternatives are tried in order, backtracking into \<open>m\<close> when
  the rest fails; the first match found is taken, and if it does not reach the end of the
  string the call raises "unconverted data remains". Each alternative below returns its
  matches as a list in the order the regular expression engine tries them.
\<close>

definition dig_in :: "char \<Rightarrow> nat \<Rightarrow> nat \<Rightarrow> bool" where
  "dig_in c lo hi \<longleftrightarrow> is_digit c \<and> lo \<le> digit_val c \<and> digit_val c \<le> hi"

fun month_alts :: "string \<Rightarrow> (nat \<times> string) list" where
  "month_alts (a # b # r) =
     (if a = CHR ''1'' \<and> dig_in b 0 2 then [(10 + digit_val b, r)] else [])
     @ (if a = CHR ''0'' \<and> dig_in b 1 9 then [(digit_val b, r)] else [])
     @ (if dig_in a 1 9 then [(digit_val a, b # r)] else [])"
| "month_alts [a] = (if dig_in a 1 9 then [(digit_val a, [])] else [])"
| "month_alts [] = []"

fun day_alts :: "string \<Rightarrow> (nat \<times> string) list" where
  "day_alts (a # b # r) =
     (if a = CHR ''3'' \<and> dig_in b 0 1 then [(30 + digit_val b, r)] else [])
     @ (if dig_in a 1 2 \<and> is_digit b then [(10 * digit_val a + digit_val b, r)] else [])
     @ (if a = CHR ''0'' \<and> dig_in b 1 9 then [(digit_val b, r)] else [])
     @ (if dig_in a 1 9 then [(digit_val a, b # r)] else [])
     @ (if a = CHR '' '' \<and> dig_in b 1 9 then [(digit_val b, r)] else [])"
| "day_alts [a] = (if dig_in a 1 9 then [(digit_val a, [])] else [])"
| "day_alts [] = []"

definition ymd_matches :: "string \<Rightarrow> (nat \<times> nat \<times> nat \<times> string) list" where
  "ymd_matches s =
     (if 5 \<le> length s \<and> list_all is_digit (take 4 s) \<and> s ! 4 = CHR ''-'' then
        concat (map (\<lambda>(m, r1). case r1 of
                         c # r2 \<Rightarrow> if c = CHR ''-'' then map (\<lambda>(d, r3). (read_digits (take 4 s), m, d, r3)) (day_alts r2) else []
                       | [] \<Rightarrow> [])
                    (month_alts (drop 5 s)))
      else [])"

definition strptime_ymd :: "string \<Rightarrow> ymd option" where
  "strptime_ymd s =
     (case ymd_matches s of
        [] \<Rightarrow> None
      | (y, m, d, rest) # _ \<Rightarrow>
          if rest \<noteq> [] then None
          else if valid_date (int y) (int m) (int d) then Some (int y, int m, int d) else None)"

section \<open>datetime.fromisoformat(s)\<close>

text \<open>The UTF-8 bytes of a Latin-1 string, and the NUL-terminated buffer reading.\<close>

definition utf8 :: "string \<Rightarrow> char list" where
  "utf8 s = concat (map (\<lambda>c. let n = (of_char c :: nat) in
                               if n < 128 then [c] else [char_of (192 + n div 64), char_of (128 + n mod 64)]) s)"

definition buf_at :: "char list \<Rightarrow> nat \<Rightarrow> char" where
  "buf_at bs i = (if i < length bs then bs ! i else CHR 0x00)"

text \<open>\<open>parse_digits\<close>: \<open>n\<close> decimal digits from position \<open>p\<close>, or failure.\<close>

fun parse_digits :: "char list \<Rightarrow> nat \<Rightarrow> nat \<Rightarrow> nat \<Rightarrow> nat option" where
  "parse_digits bs p 0 acc = Some acc"
| "parse_digits bs p (Suc n) acc =
     (if is_digit (buf_at bs p) then parse_digits bs (Suc p) n (10 * acc + digit_val (buf_at bs p)) else None)"

function digit_run_end :: "char list \<Rightarrow> nat \<Rightarrow> nat" where
  "digit_run_end bs i = (if i < length bs \<and> is_digit (bs ! i) then digit_run_end bs (Suc i) else i)"
  by pat_completeness auto
termination
  by (relation "measure (\<lambda>(bs, i). length bs - i)") auto

declare digit_run_end.simps [simp del]

text \<open>\<open>_find_isoformat_datetime_separator\<close>: where the date part ends, from the shape of
  characters 4 and 5; -1 for an impossible shape.\<close>

definition find_sep :: "char list \<Rightarrow> int" where
  "find_sep bs =
     (let len = length bs in
      if len = 7 then 7
      else if buf_at bs 4 = CHR ''-'' then
        (if buf_at bs 5 = CHR ''W'' then
           (if len < 8 then -1
            else if 8 < len \<and> buf_at bs 8 = CHR ''-'' then
              (if len = 9 then -1 else if 10 < len \<and> is_digit (buf_at bs 10) then 8 else 10)
            else 8)
         else 10)
      else if buf_at bs 4 = CHR ''W'' then
        (let idx = digit_run_end bs 7 in if idx < 9 then int idx else if even idx then 7 else 8)
      else 8)"

text \<open>\<open>parse_isoformat_date\<close>: \<open>YYYY-MM-DD\<close>, \<open>YYYYMMDD\<close>, or an ISO week date
  \<open>YYYY-Www[-D]\<close> / \<open>YYYYWww[D]\<close>; month and day are range-checked later.\<close>

definition parse_iso_date :: "char list \<Rightarrow> nat \<Rightarrow> ymd option" where
  "parse_iso_date bs len =
     (case parse_digits bs 0 4 0 of
        None \<Rightarrow> None
      | Some y \<Rightarrow>
          let us = (buf_at bs 4 = CHR ''-''); p = (if us then 5 else 4) in
          if buf_at bs p = CHR ''W'' then
            (case parse_digits bs (p + 1) 2 0 of
               None \<Rightarrow> None
             | Some w \<Rightarrow>
                 if p + 3 < len then
                   (if us \<and> buf_at bs (p + 3) \<noteq> CHR ''-'' then None
                    else case parse_digits bs (if us then p + 4 else p + 3) 1 0 of
                           None \<Rightarrow> None
                         | Some d \<Rightarrow> iso_to_ymd (int y) (int w) (int d))
                 else iso_to_ymd (int y) (int w) 1)
          else
            (case parse_digits bs p 2 0 of
               None \<Rightarrow> None
             | Some m \<Rightarrow>
                 if us \<and> buf_at bs (p + 2) \<noteq> CHR ''-'' then None
                 else case parse_digits bs (if us then p + 3 else p + 2) 2 0 of
                        None \<Rightarrow> None
                      | Some d \<Rightarrow> Some (int y, int m, int d)))"

text \<open>\<open>parse_hh_mm_ss_ff\<close>: up to three two-digit fields, separated by \<open>:\<close> throughout
  or not at all, then an optional fraction after \<open>.\<close> or \<open>,\<close> of which six digits are
  kept. The flag is 1 when the buffer does not end right after what was read.\<close>

datatype hms = HErr | HOk nat "nat list" nat

function skip_digits :: "char list \<Rightarrow> nat \<Rightarrow> nat" where
  "skip_digits bs p = (if is_digit (buf_at bs p) then skip_digits bs (Suc p) else p)"
  by pat_completeness auto
termination
  by (relation "measure (\<lambda>(bs, p). length bs - p)") (auto simp: buf_at_def is_digit_def split: if_splits)

declare skip_digits.simps [simp del]

definition hms_fraction :: "char list \<Rightarrow> nat \<Rightarrow> nat \<Rightarrow> nat list \<Rightarrow> hms" where
  "hms_fraction bs p pe vals =
     (let k = min 6 (pe - p) in
      case parse_digits bs p k 0 of
        None \<Rightarrow> HErr
      | Some f \<Rightarrow> let q = skip_digits bs (p + k) in
                  HOk (if buf_at bs q \<noteq> CHR 0x00 then 1 else 0) vals (f * 10 ^ (6 - k)))"

function hms_fields :: "char list \<Rightarrow> nat \<Rightarrow> nat \<Rightarrow> nat \<Rightarrow> bool \<Rightarrow> nat list \<Rightarrow> hms" where
  "hms_fields bs p pe i hs vals =
     (if 3 \<le> i then hms_fraction bs p pe vals
      else case parse_digits bs p 2 0 of
        None \<Rightarrow> HErr
      | Some v \<Rightarrow>
          let vals' = vals @ [v]; c = buf_at bs (p + 2); p' = p + 3;
              hs' = (if i = 0 then c = CHR '':'' else hs)
          in if pe \<le> p' then HOk (if c \<noteq> CHR 0x00 then 1 else 0) vals' 0
             else if hs' \<and> c = CHR '':'' then hms_fields bs p' pe (Suc i) hs' vals'
             else if c = CHR ''.'' \<or> c = CHR '','' then hms_fraction bs p' pe vals'
             else if \<not> hs' then hms_fields bs (p' - 1) pe (Suc i) hs' vals'
             else HErr)"
  by pat_completeness auto
termination
  by (relation "measure (\<lambda>(bs, p, pe, i, hs, vals). 3 - i)") auto

declare hms_fields.simps [simp del]

definition field :: "nat list \<Rightarrow> nat \<Rightarrow> nat" where
  "field vals i = (if i < length vals then vals ! i else 0)"

text \<open>\<open>parse_isoformat_time\<close>: the time fields up to the first \<open>Z\<close>, \<open>+\<close> or \<open>-\<close>, then
  the offset. The result keeps the time fields and the offset in microseconds.\<close>

definition tz_pos :: "char list \<Rightarrow> nat \<Rightarrow> nat \<Rightarrow> nat" where
  "tz_pos bs start len =
     (case filter (\<lambda>i. buf_at bs i \<in> {CHR ''Z'', CHR ''+'', CHR ''-''}) [start..<len] of
        i # _ \<Rightarrow> i
      | [] \<Rightarrow> (if start < len then len else Suc start))"

definition parse_iso_time :: "char list \<Rightarrow> nat \<Rightarrow> nat \<Rightarrow> (nat list \<times> int) option" where
  "parse_iso_time bs start len =
     (let tz = tz_pos bs start len in
      case hms_fields bs start tz 0 True [] of
        HErr \<Rightarrow> None
      | HOk rv vals us \<Rightarrow>
          if tz = len then (if rv = 1 then None else Some (vals @ [us], 0))
          else if buf_at bs tz = CHR ''Z'' then
            (if buf_at bs (Suc tz) \<noteq> CHR 0x00 then None else Some (vals @ [us], 0))
          else
            (case hms_fields bs (Suc tz) len 0 True [] of
               HErr \<Rightarrow> None
             | HOk rv2 tvals tus \<Rightarrow>
                 if rv2 \<noteq> 0 then None
                 else Some (vals @ [us],
                            (if buf_at bs tz = CHR ''-'' then -1 else 1) *
                            (int (field tvals 0 * 3600 + field tvals 1 * 60 + field tvals 2) * 1000000 + int tus))))"

text \<open>The constructors' checks: hour, minute and second in range, and an offset strictly
  within one day.\<close>

definition valid_time :: "nat list \<Rightarrow> int \<Rightarrow> bool" where
  "valid_time vals off \<longleftrightarrow>
     field vals 0 \<le> 23 \<and> field vals 1 \<le> 59 \<and> field vals 2 \<le> 59 \<and> \<bar>off\<bar> < 86400000000"

definition py_fromisoformat :: "string \<Rightarrow> ymd option" where
  "py_fromisoformat s =
     (if length s < 7 then None
      else
        let bs = utf8 s; sep = find_sep bs in
        if sep < 0 then None
        else case parse_iso_date bs (nat sep) of
          None \<Rightarrow> None
        | Some (y, m, d) \<Rightarrow>
            let t = (if nat sep < length bs then parse_iso_time bs (Suc (nat sep)) (length bs)
                     else Some ([], 0))
            in case t of
                 None \<Rightarrow> None
               | Some (vals, off) \<Rightarrow>
                   if valid_date y m d \<and> valid_time vals off then Some (y, m, d) else None)"

section \<open>strftime('%d/%m/%Y')\<close>

definition pad2 :: "int \<Rightarrow> string" where
  "pad2 n = (let t = show_nat (nat n) in if length t < 2 then CHR ''0'' # t else t)"

definition strftime_dmy :: "ymd \<Rightarrow> string" where
  "strftime_dmy ymd = (case ymd of (y, m, d) \<Rightarrow> pad2 d @ ''/'' @ pad2 m @ ''/'' @ show_nat (nat y))"

section \<open>Lemmas: the regular expression on zero-padded fields\<close>

lemma month_alts_pad2:
  assumes "1 \<le> m" "m \<le> 12"
  shows "\<exists>rest. month_alts (pad2 m @ c # r) = (nat m, c # r) # rest"
proof -
  have "m \<in> set [1, 2, 3, 4, 5, 6, 7, 8, 9, 10, 11, 12]" using assms by simp presburger
  then show ?thesis
    by (auto simp: pad2_def digit_simps dig_in_def)
qed

lemma day_alts_pad2:
  assumes "1 \<le> d" "d \<le> 31"
  shows "\<exists>rest. day_alts (pad2 d) = (nat d, []) # rest"
proof -
  have "d \<in> set [1, 2, 3, 4, 5, 6, 7, 8, 9, 10, 11, 12, 13, 14, 15, 16, 17, 18, 19, 20,
                  21, 22, 23, 24, 25, 26, 27, 28, 29, 30, 31]" using assms by simp presburger
  then show ?thesis
    by (auto simp: pad2_def digit_simps dig_in_def)
qed

lemma T_notin_pad2 [simp]: "CHR ''T'' \<notin> set (pad2 n)"
  by (simp add: pad2_def Let_def)

lemma strptime_ymd_digits:
  assumes "valid_date y m d" "length ys = 4" "list_all is_digit ys" "read_digits ys = nat y"
  shows "strptime_ymd (ys @ ''-'' @ pad2 m @ ''-'' @ pad2 d) = Some (y, m, d)"
proof -
  have m: "1 \<le> m" "m \<le> 12" and d: "1 \<le> d" "d \<le> 31" and y: "1 \<le> y"
    using assms(1) by (auto simp: valid_date_def days_in_month_def split: if_splits)
  obtain rm where rm: "month_alts (pad2 m @ CHR ''-'' # pad2 d) = (nat m, CHR ''-'' # pad2 d) # rm"
    using month_alts_pad2 [OF m] by blast
  obtain rd where rd: "day_alts (pad2 d) = (nat d, []) # rd"
    using day_alts_pad2 [OF d] by blast
  obtain rest where "ymd_matches (ys @ ''-'' @ pad2 m @ ''-'' @ pad2 d) = (nat y, nat m, nat d, []) # rest"
    using assms(2-4) by (simp add: ymd_matches_def rm rd nth_append)
  moreover have "int (nat y) = y" "int (nat m) = m" "int (nat d) = d"
    using y m(1) d(1) by simp_all
  ultimately show ?thesis using assms(1) by (simp add: strptime_ymd_def)
qed

lemma strptime_ymd_iso:
  assumes "valid_date y m d" "1000 \<le> y"
  shows "strptime_ymd (show_nat (nat y) @ ''-'' @ pad2 m @ ''-'' @ pad2 d) = Some (y, m, d)"
proof -
  have yr: "1000 \<le> nat y" "nat y < 10000" using assms by (auto simp: valid_date_def)
  have "length (show_nat (nat y)) = 4" using show_nat_4 [OF yr] by simp
  moreover have "list_all is_digit (show_nat (nat y))" by (simp add: list_all_iff)
  ultimately show ?thesis using strptime_ymd_digits [OF assms(1)] by simp
qed

lemma T_notin_digits: "list_all is_digit ys \<Longrightarrow> CHR ''T'' \<notin> set ys"
  by (auto simp: list_all_iff is_digit_def)

lemma strftime_dmy_ne: "strftime_dmy d \<noteq> []"
  by (simp add: strftime_dmy_def split: prod.split)

end
