(* ===== verification/Formatters.thy ===== *)
theory Formatters
  imports PyValue PyDate
begin

text \<open>
  The two formatters of \<open>src/pdf_service/generate_pdf.py\<close>, \<open>format_date\<close> and
  \<open>format_money\<close>, over the models of the library calls they make. Both absorb
  malformed input: \<open>format_date\<close> returns its argument unchanged when parsing raises
  (its bare \<open>except\<close>), \<open>format_money\<close> returns \<open>str(amount)\<close>, which can itself
  raise for an int beyond the digit limit; that exception leaves the function.
\<close>

text \<open>\<open>date_str.replace('Z', '+00:00')\<close>\<close>

definition replace_Z :: "string \<Rightarrow> string" where
  "replace_Z s = concat (map (\<lambda>c. if c = CHR ''Z'' then ''+00:00'' else [c]) s)"

text \<open>
  \<open>format_date(date_str)\<close> (lines 105--117). A falsy value gives \<open>""\<close>. For a string,
  \<open>'T' in date_str\<close> selects \<open>fromisoformat\<close> (after the \<open>Z\<close> replacement) or
  \<open>strptime\<close>; a parse error returns the string. For any other truthy value the
  membership test or the call raises (\<open>TypeError\<close>, or \<open>AttributeError\<close> on
  \<open>.replace\<close> for a list holding \<open>"T"\<close>), so the value itself is returned, not
  necessarily a string.
\<close>

definition format_date :: "jval \<Rightarrow> jval" where
  "format_date v =
     (if \<not> truthy v then JStr []
      else case v of
        JStr s \<Rightarrow>
          (let parsed = (if CHR ''T'' \<in> set s then py_fromisoformat (replace_Z s) else strptime_ymd s)
           in case parsed of
                Some d \<Rightarrow> JStr (strftime_dmy d)
              | None \<Rightarrow> v)
      | _ \<Rightarrow> v)"

text \<open>
  \<open>format_money(amount)\<close> (lines 119--125): \<open>""\<close> for \<open>None\<close> or \<open>""\<close>; otherwise
  \<open>"{:,.0f}".format(float(amount))\<close>, and where \<open>float()\<close> raises, \<open>str(amount)\<close>.
\<close>

definition format_money :: "jval \<Rightarrow> pyexc + string" where
  "format_money amount =
     (if amount = JNull \<or> is_empty_str amount then Inr []
      else case py_float amount of
             Some f \<Rightarrow> Inr (format_f0_grouped f)
           | None \<Rightarrow> py_str amount)"

section \<open>Properties of the formatters\<close>

lemma format_money_nonblank:
  assumes "v \<noteq> JNull" "\<not> is_empty_str v"
  shows "format_money v = (case py_float v of Some f \<Rightarrow> Inr (format_f0_grouped f) | None \<Rightarrow> py_str v)"
  using assms by (simp add: format_money_def)

lemma format_date_cases: "format_date v = v \<or> (\<exists>s. format_date v = JStr s)"
  by (auto simp: format_date_def Let_def split: jval.split option.split)

lemma format_date_wf: "wf_jval v \<Longrightarrow> wf_jval (format_date v)"
  using format_date_cases [of v] by auto

text \<open>C5. For an int of magnitude at most 2^53 (every int a double holds exactly),
  \<open>format_money\<close> prints its decimal digits grouped by three with commas, and a minus
  sign for a negative amount.\<close>

lemma format_money_int:
  assumes "\<bar>i\<bar> \<le> 2 ^ 53"
  shows "format_money (JInt i) = Inr ((if i < 0 then ''-'' else []) @ group3 (show_nat (nat \<bar>i\<bar>)))"
proof -
  from format_int_float [OF assms] obtain f where
    "int_to_float i = Some f" and "format_f0_grouped f = (if i < 0 then ''-'' else []) @ group3 (show_nat (nat \<bar>i\<bar>))"
    by auto
  then show ?thesis by (simp add: format_money_nonblank is_empty_str_def)
qed

lemma format_money_int_witness:
  "\<bar>-1234567\<bar> \<le> (2::int) ^ 53 \<and> format_money (JInt (-1234567)) = Inr ''-1,234,567''"
proof -
  have h: "\<bar>-1234567\<bar> \<le> (2::int) ^ 53" by simp
  have "format_money (JInt (-1234567)) = Inr ((if (-1234567::int) < 0 then ''-'' else []) @ group3 (show_nat (nat \<bar>-1234567::int\<bar>)))"
    by (rule format_money_int [OF h])
  then show ?thesis by (simp add: digit_simps group3_def)
qed


text \<open>C17. \<open>format_money\<close> returns the empty string exactly for \<open>None\<close> and
  \<open>""\<close> (so \<open>0\<close> prints as \<open>0\<close>), while \<open>format_date\<close> returns it exactly for the
  falsy values (\<open>None\<close>, \<open>""\<close>, \<open>0\<close>, \<open>0.0\<close>, \<open>False\<close>, \<open>[]\<close>, \<open>{}\<close>).\<close>

lemma format_blank:
  "(format_money v = Inr [] \<longleftrightarrow> v = JNull \<or> v = JStr [])
   \<and> (format_date v = JStr [] \<longleftrightarrow> \<not> truthy v)"
proof
  show "format_money v = Inr [] \<longleftrightarrow> v = JNull \<or> v = JStr []"
    using py_str_ne [of v] format_f0_grouped_ne
    by (auto simp: format_money_def is_empty_str_def split: option.split)
  show "format_date v = JStr [] \<longleftrightarrow> \<not> truthy v"
    using strftime_dmy_ne
    by (cases v) (auto simp: format_date_def Let_def split: option.split)
qed

text \<open>C20. A non-empty string that \<open>float()\<close> rejects is returned by \<open>format_money\<close>
  unchanged.\<close>

lemma format_money_passthrough:
  assumes "float_of_str s = None" "s \<noteq> []"
  shows "format_money (JStr s) = Inr s"
  using assms by (simp add: format_money_nonblank is_empty_str_def py_str_def)

lemma format_money_passthrough_witness:
  "float_of_str ''12 tons'' = None \<and> ''12 tons'' \<noteq> [] \<and> format_money (JStr ''12 tons'') = Inr ''12 tons''"
proof -
  have h: "float_of_str ''12 tons'' = None" by code_simp
  show ?thesis using format_money_passthrough [OF h] h by simp
qed

lemma format_money_wf:
  assumes "wf_jval v"
  shows "\<exists>r. format_money v = Inr r"
  using py_str_wf [OF assms] by (auto simp: format_money_def split: option.splits)

text \<open>C16. For every finite double, \<open>format_money\<close> prints the integer nearest to
  its exact binary value, and the even one of the two when the value lies exactly
  halfway (\<open>2.5\<close> prints \<open>2\<close>, \<open>3.5\<close> prints \<open>4\<close>), grouped by commas; the sign
  bit is printed even when that integer is zero (\<open>-0.4\<close> prints \<open>-0\<close>).\<close>

lemma format_money_rounding:
  "\<exists>k. format_money (JFloat (Fin s m e)) = Inr ((if s then ''-'' else []) @ group3 (show_nat k))
       \<and> (2 * \<bar>of_nat k - fin_val False m e\<bar> < 1
          \<or> (2 * \<bar>of_nat k - fin_val False m e\<bar> = 1 \<and> even k))"
  using round_int_nearest [of m e] by (auto simp: format_money_def is_empty_str_def)

text \<open>C6. A valid calendar date written \<open>YYYY-MM-DD\<close> (year from 1000 on, zero-padded
  month and day) is reformatted as \<open>DD/MM/YYYY\<close>.\<close>

lemma format_date_iso_date:
  assumes "valid_date y m d" "1000 \<le> y"
  shows "format_date (JStr (show_nat (nat y) @ ''-'' @ pad2 m @ ''-'' @ pad2 d))
           = JStr (pad2 d @ ''/'' @ pad2 m @ ''/'' @ show_nat (nat y))"
  using strptime_ymd_iso [OF assms] by (simp add: format_date_def strftime_dmy_def)

lemma format_date_iso_date_witness:
  "valid_date 2024 2 29 \<and> (1000::int) \<le> 2024
   \<and> format_date (JStr ''2024-02-29'') = JStr ''29/02/2024''"
proof -
  have v: "valid_date 2024 2 29" by (simp add: valid_date_def days_in_month_def is_leap_def)
  have "format_date (JStr (show_nat (nat 2024) @ ''-'' @ pad2 2 @ ''-'' @ pad2 29))
          = JStr (pad2 29 @ ''/'' @ pad2 2 @ ''/'' @ show_nat (nat 2024))"
    by (rule format_date_iso_date [OF v]) simp
  then show ?thesis using v by (simp add: pad2_def digit_simps)
qed

text \<open>C15. An int amount of magnitude \<open>2^1024\<close> or more overflows \<open>float()\<close>; the
  bare \<open>except\<close> then makes \<open>format_money\<close> return \<open>str(amount)\<close>: the digits without
  separators, or the \<open>ValueError\<close> of \<open>str()\<close> beyond 4300 digits.\<close>

lemma format_money_overflow:
  assumes "2 ^ 1024 \<le> \<bar>i\<bar>"
  shows "format_money (JInt i) = int_str i"
  using int_to_float_overflow [OF assms] by (simp add: format_money_def is_empty_str_def py_str_def)

lemma format_money_overflow_witness:
  "2 ^ 1024 \<le> \<bar>(2::int) ^ 1024\<bar> \<and> format_money (JInt (2 ^ 1024)) = int_str (2 ^ 1024)"
  using format_money_overflow [of "2 ^ 1024"] by simp

text \<open>C18. A valid date whose year is below 1000, written with the four-digit
  zero-padded year that \<open>%Y\<close> parses, is printed with the year unpadded:
  \<open>strftime('%Y')\<close> of the C library used on Linux writes the year as a plain
  decimal number, so the output has fewer than four year digits and is not
  \<open>DD/MM/YYYY\<close>.\<close>

lemma format_date_short_year:
  assumes "valid_date y m d" "y < 1000" "length ys = 4" "list_all is_digit ys" "read_digits ys = nat y"
  shows "format_date (JStr (ys @ ''-'' @ pad2 m @ ''-'' @ pad2 d))
           = JStr (pad2 d @ ''/'' @ pad2 m @ ''/'' @ show_nat (nat y))
         \<and> length (show_nat (nat y)) < 4"
proof
  show "format_date (JStr (ys @ ''-'' @ pad2 m @ ''-'' @ pad2 d))
           = JStr (pad2 d @ ''/'' @ pad2 m @ ''/'' @ show_nat (nat y))"
    using strptime_ymd_digits [OF assms(1,3-5)] T_notin_digits [OF assms(4)]
    by (simp add: format_date_def strftime_dmy_def)
  have "nat y < 10 ^ 3" using assms(2) by simp
  then show "length (show_nat (nat y)) < 4" using length_show_nat_pow [of "nat y" 3] by simp
qed

lemma format_date_short_year_witness:
  "valid_date 999 12 31 \<and> (999::int) < 1000 \<and> length ''0999'' = 4 \<and> list_all is_digit ''0999''
   \<and> read_digits ''0999'' = nat 999
   \<and> format_date (JStr ''0999-12-31'') = JStr ''31/12/999'' \<and> length (show_nat (nat 999)) < 4"
proof -
  have v: "valid_date 999 12 31" by (simp add: valid_date_def days_in_month_def)
  have r: "read_digits ''0999'' = nat 999" by (simp add: digit_simps read_digits_def)
  have l: "length ''0999'' = 4" "list_all is_digit ''0999''" by (simp_all add: digit_simps)
  have "format_date (JStr (''0999'' @ ''-'' @ pad2 12 @ ''-'' @ pad2 31))
           = JStr (pad2 31 @ ''/'' @ pad2 12 @ ''/'' @ show_nat (nat 999))
         \<and> length (show_nat (nat 999)) < 4"
    by (rule format_date_short_year [OF v _ l r]) simp
  then show ?thesis using v r l by (simp add: pad2_def digit_simps)
qed

end
