(* ===== verification/Coordinates.thy ===== *)
theory Coordinates
  imports PyFloat
begin

text \<open>
  \<open>src/pdf_service/coordinates.py\<close>: the millimetre-to-point factor \<open>MM\<close>, the slip
  dimensions in millimetres, and the two coordinate tables. A table is a Python dict
  literal; its iteration order is the order of the literal, so it is an association list.
  Entries are \<open>(x_mm, y_mm_from_top)\<close> pairs of ints relative to the slip's top-left
  corner.
\<close>

type_synonym coord_table = "(string \<times> (int \<times> int)) list"

text \<open>\<open>MM = 2.83465\<close>: the double nearest to 283465 / 10^5.\<close>

definition MM :: pyfloat where
  "MM = dec_to_float False 283465 (-5)"

definition SLIP_WIDTH_MM :: pyfloat where
  "SLIP_WIDTH_MM = dec_to_float False 1485 (-1)"

definition SLIP_HEIGHT_MM :: int where
  "SLIP_HEIGHT_MM = 210"

definition LOADING_SLIP :: coord_table where
  "LOADING_SLIP =
     [(''slip_no'', (112, 35)),
      (''loading_date'', (112, 42)),
      (''party_name'', (35, 64)),
      (''route_from'', (35, 72)),
      (''route_to'', (85, 72)),
      (''vehicle_no'', (45, 80)),
      (''weight'', (95, 80)),
      (''party_freight'', (80, 88)),
      (''party_advance'', (35, 96)),
      (''party_balance'', (80, 96)),
      (''remarks'', (35, 110))]"

definition PAY_SLIP :: coord_table where
  "PAY_SLIP =
     [(''slip_no'', (112, 35)),
      (''loading_date'', (112, 42)),
      (''motor_owner'', (40, 64)),
      (''driver_mobile'', (95, 64)),
      (''route_from'', (35, 72)),
      (''route_to'', (85, 72)),
      (''vehicle_no'', (45, 80)),
      (''weight'', (95, 80)),
      (''gaadi_freight'', (80, 88)),
      (''gaadi_advance'', (35, 96)),
      (''gaadi_balance'', (80, 96)),
      (''remarks'', (35, 110))]"

end
