(* ===== verification/Canvas.thy ===== *)
theory Canvas
  imports PyValue Coordinates
begin

text \<open>
  The drawing surface. ReportLab's \<open>canvas.Canvas\<close> keeps the content stream of the
  current page and the pages already shown; the calls the service makes append one
  operation each to the stream (\<open>setFont\<close>, \<open>drawString\<close>, \<open>drawImage\<close>),
  \<open>showPage\<close> closes the page, and \<open>save\<close> shows a last page only if its stream is
  not empty. The produced document is the list of page streams; the PDF serialisation
  is not modelled. \<open>drawImage\<close> reads the file and raises when it is not an image; the
  file system is the parameter \<open>fs\<close>. The page constants are those of
  \<open>generate_pdf.py\<close> (lines 8--11) over ReportLab's units (\<open>inch = 72.0\<close>,
  \<open>cm = inch / 2.54\<close>, \<open>mm = cm * 0.1\<close>) and \<open>A4 = (210*mm, 297*mm)\<close>,
  computed in double arithmetic as Python does.
\<close>

section \<open>Page geometry\<close>

definition rl_inch :: pyfloat where
  "rl_inch = dec_to_float False 72 0"

definition rl_cm :: pyfloat where
  "rl_cm = fdiv rl_inch (dec_to_float False 254 (-2))"

definition rl_mm :: pyfloat where
  "rl_mm = fmul rl_cm (dec_to_float False 1 (-1))"

definition A4 :: "pyfloat \<times> pyfloat" where
  "A4 = (fmul (of_pyint 210) rl_mm, fmul (of_pyint 297) rl_mm)"

text \<open>Strict less-than of two finite doubles, by their exact values.\<close>

definition flt :: "pyfloat \<Rightarrow> pyfloat \<Rightarrow> bool" where
  "flt x y = (case (float_val x, float_val y) of (Some a, Some b) \<Rightarrow> a < b | _ \<Rightarrow> False)"

text \<open>\<open>landscape(pagesize)\<close>: the longer side first.\<close>

definition landscape :: "pyfloat \<times> pyfloat \<Rightarrow> pyfloat \<times> pyfloat" where
  "landscape ps = (case ps of (a, b) \<Rightarrow> if flt a b then (b, a) else (a, b))"

definition PAGE_WIDTH :: pyfloat where
  "PAGE_WIDTH = fst (landscape A4)"

definition PAGE_HEIGHT :: pyfloat where
  "PAGE_HEIGHT = snd (landscape A4)"

definition SLIP_WIDTH :: pyfloat where
  "SLIP_WIDTH = fdiv PAGE_WIDTH (of_pyint 2)"

definition SLIP_HEIGHT :: pyfloat where
  "SLIP_HEIGHT = PAGE_HEIGHT"

section \<open>The canvas\<close>

datatype draw_op =
    SetFont string nat
  | DrawString pyfloat pyfloat string
  | DrawImage string pyfloat pyfloat pyfloat pyfloat

record canvas =
  cv_pagesize :: "pyfloat \<times> pyfloat"
  cv_code :: "draw_op list"
  cv_pages :: "draw_op list list"

text \<open>What a path names on disk: nothing, an image, or a file the image reader rejects
  (with the message of its exception).\<close>

datatype file_state = NoFile | ImageFile | BadFile string

type_synonym filesystem = "string \<Rightarrow> file_state"

definition canvas_init :: "pyfloat \<times> pyfloat \<Rightarrow> canvas" where
  "canvas_init ps = \<lparr>cv_pagesize = ps, cv_code = [], cv_pages = []\<rparr>"

definition set_font :: "canvas \<Rightarrow> string \<Rightarrow> nat \<Rightarrow> canvas" where
  "set_font c name sz = c\<lparr>cv_code := cv_code c @ [SetFont name sz]\<rparr>"

definition draw_string :: "canvas \<Rightarrow> pyfloat \<Rightarrow> pyfloat \<Rightarrow> string \<Rightarrow> canvas" where
  "draw_string c x y t = c\<lparr>cv_code := cv_code c @ [DrawString x y t]\<rparr>"

definition draw_image ::
  "filesystem \<Rightarrow> canvas \<Rightarrow> string \<Rightarrow> pyfloat \<Rightarrow> pyfloat \<Rightarrow> pyfloat \<Rightarrow> pyfloat \<Rightarrow> pyexc + canvas" where
  "draw_image fs c path x y w h =
     (case fs path of
        BadFile msg \<Rightarrow> Inl (ImageError msg)
      | NoFile \<Rightarrow> Inl (ImageError (''Cannot open resource '' @ path))
      | ImageFile \<Rightarrow> Inr (c\<lparr>cv_code := cv_code c @ [DrawImage path x y w h]\<rparr>))"

definition show_page :: "canvas \<Rightarrow> canvas" where
  "show_page c = c\<lparr>cv_pages := cv_pages c @ [cv_code c], cv_code := []\<rparr>"

definition save :: "canvas \<Rightarrow> draw_op list list" where
  "save c = cv_pages (if cv_code c \<noteq> [] then show_page c else c)"

definition path_exists :: "filesystem \<Rightarrow> string \<Rightarrow> bool" where
  "path_exists fs p \<longleftrightarrow> fs p \<noteq> NoFile"

section \<open>draw_text\<close>

text \<open>
  \<open>draw_text(c, text, x_mm, y_mm_from_top, offset_x)\<close> (\<open>generate_pdf.py\<close>,
  lines 15--32): \<open>None\<close> becomes \<open>""\<close>, the value is passed through \<open>str\<close> (which
  may raise), the position is \<open>offset_x + x_mm * MM\<close> and
  \<open>SLIP_HEIGHT - y_mm_from_top * MM\<close> in double arithmetic (the int operands converted
  first), then the font is set and the string drawn.
\<close>

definition text_x :: "pyfloat \<Rightarrow> int \<Rightarrow> pyfloat" where
  "text_x offset_x x_mm = fadd offset_x (fmul (of_pyint x_mm) MM)"

definition text_y :: "int \<Rightarrow> pyfloat" where
  "text_y y_mm = fsub SLIP_HEIGHT (fmul (of_pyint y_mm) MM)"

definition draw_text :: "canvas \<Rightarrow> jval \<Rightarrow> int \<Rightarrow> int \<Rightarrow> pyfloat \<Rightarrow> pyexc + canvas" where
  "draw_text c text x_mm y_mm offset_x =
     (case py_str (if text = JNull then JStr [] else text) of
        Inl e \<Rightarrow> Inl e
      | Inr t \<Rightarrow> Inr (draw_string (set_font c ''Helvetica-Bold'' 10)
                                (text_x offset_x x_mm) (text_y y_mm) t))"

end
