(* ===== verification/Composer.thy ===== *)
theory Composer
  imports Formatters Canvas
begin

text \<open>
  \<open>generate_pdf_buffer(trip_data, options, slip_numbers)\<close> (\<open>generate_pdf.py\<close>,
  lines 34--103): a landscape A4 canvas; on the left half, when
  \<open>options['left'] == 'loading_slip'\<close>, the loading-slip background (if the file
  exists) and the eleven fields of the loading-slip table; on the right half, when
  \<open>options['right'] == 'pay_slip'\<close>, the pay-slip background at \<open>x = SLIP_WIDTH\<close>
  and the twelve fields of the pay-slip table shifted by \<open>SLIP_WIDTH\<close>; then
  \<open>showPage\<close> and \<open>save\<close>. The field values are prepared in a dict first (the
  formatters and \<open>str\<close> of the weight run there, in the order of the dict literal),
  then the table is walked in its order and every key present in the dict is drawn.
  An exception anywhere ends the whole computation.
\<close>

definition TEMPLATE_DIR :: string where
  "TEMPLATE_DIR = ''pdf_service/templates''"

definition template_path :: "string \<Rightarrow> string" where
  "template_path name = TEMPLATE_DIR @ ''/'' @ name"

text \<open>\<open>f"{w} MT" if w else ""\<close> for the weight.\<close>

definition weight_text :: "jval \<Rightarrow> pyexc + jval" where
  "weight_text w =
     (if truthy w then ebind (py_str w) (\<lambda>t. Inr (JStr (t @ '' MT''))) else Inr (JStr []))"

definition money_field :: "jval \<Rightarrow> pyexc + jval" where
  "money_field v = ebind (format_money v) (\<lambda>s. Inr (JStr s))"

text \<open>The \<open>data\<close> dict of the left half (lines 48--60).\<close>

definition loading_data :: "pydict \<Rightarrow> pydict \<Rightarrow> pyexc + pydict" where
  "loading_data trip slips =
     ebind (weight_text (dict_get trip ''weight'')) (\<lambda>w.
     ebind (money_field (dict_get trip ''party_freight'')) (\<lambda>pf.
     ebind (money_field (dict_get trip ''party_advance'')) (\<lambda>pa.
     ebind (money_field (dict_get trip ''party_balance'')) (\<lambda>pb.
     Inr [(''slip_no'', dict_get_default slips ''loading'' (JStr ''PREVIEW'')),
          (''loading_date'', format_date (dict_get trip ''loading_date'')),
          (''party_name'', dict_get trip ''party_name''),
          (''route_from'', dict_get trip ''from_location''),
          (''route_to'', dict_get trip ''to_location''),
          (''vehicle_no'', dict_get trip ''vehicle_number''),
          (''weight'', w),
          (''party_freight'', pf),
          (''party_advance'', pa),
          (''party_balance'', pb),
          (''remarks'', dict_get trip ''remark'')]))))"

text \<open>\<open>driver_mobile\<close> (line 77): the driver's number, or the motor owner's when the
  driver's is falsy.\<close>

definition driver_mobile :: "pydict \<Rightarrow> jval" where
  "driver_mobile trip = py_or (dict_get trip ''driver_number'') (dict_get trip ''motor_owner_number'')"

text \<open>The \<open>data\<close> dict of the right half (lines 79--92).\<close>

definition pay_data :: "pydict \<Rightarrow> pydict \<Rightarrow> pyexc + pydict" where
  "pay_data trip slips =
     ebind (weight_text (dict_get trip ''weight'')) (\<lambda>w.
     ebind (money_field (dict_get trip ''gaadi_freight'')) (\<lambda>gf.
     ebind (money_field (dict_get trip ''gaadi_advance'')) (\<lambda>ga.
     ebind (money_field (dict_get trip ''gaadi_balance'')) (\<lambda>gb.
     Inr [(''slip_no'', dict_get_default slips ''pay'' (JStr ''PREVIEW'')),
          (''loading_date'', format_date (dict_get trip ''loading_date'')),
          (''motor_owner'', dict_get trip ''motor_owner_name''),
          (''driver_mobile'', driver_mobile trip),
          (''route_from'', dict_get trip ''from_location''),
          (''route_to'', dict_get trip ''to_location''),
          (''vehicle_no'', dict_get trip ''vehicle_number''),
          (''weight'', w),
          (''gaadi_freight'', gf),
          (''gaadi_advance'', ga),
          (''gaadi_balance'', gb),
          (''remarks'', dict_get trip ''remark'')]))))"

text \<open>\<open>for key, coords in TABLE.items(): if key in data: draw_text(...)\<close>\<close>

fun draw_fields :: "canvas \<Rightarrow> coord_table \<Rightarrow> pydict \<Rightarrow> pyfloat \<Rightarrow> pyexc + canvas" where
  "draw_fields c [] data off = Inr c"
| "draw_fields c ((key, (x, y)) # rest) data off =
     (case map_of data key of
        None \<Rightarrow> draw_fields c rest data off
      | Some v \<Rightarrow> ebind (draw_text c v x y off) (\<lambda>c'. draw_fields c' rest data off))"

text \<open>The table walk as a function of the data alone: the operations it appends, in
  table order, or the first exception. \<open>draw_fields\<close> refines it (lemma
  \<open>draw_fields_field_ops\<close>).\<close>

fun field_ops :: "coord_table \<Rightarrow> pydict \<Rightarrow> pyfloat \<Rightarrow> pyexc + draw_op list" where
  "field_ops [] data off = Inr []"
| "field_ops ((key, (x, y)) # rest) data off =
     (case map_of data key of
        None \<Rightarrow> field_ops rest data off
      | Some v \<Rightarrow>
          ebind (py_str (if v = JNull then JStr [] else v)) (\<lambda>t.
          ebind (field_ops rest data off) (\<lambda>ops.
          Inr (SetFont ''Helvetica-Bold'' 10 # DrawString (text_x off x) (text_y y) t # ops))))"

text \<open>The background of a half: drawn only if the file exists (\<open>os.path.exists\<close>).\<close>

definition draw_background :: "filesystem \<Rightarrow> canvas \<Rightarrow> string \<Rightarrow> pyfloat \<Rightarrow> pyexc + canvas" where
  "draw_background fs c path x =
     (if path_exists fs path then draw_image fs c path x (of_pyint 0) SLIP_WIDTH SLIP_HEIGHT else Inr c)"

definition left_half :: "filesystem \<Rightarrow> canvas \<Rightarrow> pydict \<Rightarrow> pydict \<Rightarrow> pydict \<Rightarrow> pyexc + canvas" where
  "left_half fs c trip opts slips =
     (if dict_get opts ''left'' = JStr ''loading_slip'' then
        ebind (draw_background fs c (template_path ''loading_slip_template.png'') (of_pyint 0)) (\<lambda>c1.
        ebind (loading_data trip slips) (\<lambda>data.
        draw_fields c1 LOADING_SLIP data (of_pyint 0)))
      else Inr c)"

definition right_half :: "filesystem \<Rightarrow> canvas \<Rightarrow> pydict \<Rightarrow> pydict \<Rightarrow> pydict \<Rightarrow> pyexc + canvas" where
  "right_half fs c trip opts slips =
     (if dict_get opts ''right'' = JStr ''pay_slip'' then
        ebind (draw_background fs c (template_path ''pay_slip_template.png'') SLIP_WIDTH) (\<lambda>c1.
        ebind (pay_data trip slips) (\<lambda>data.
        draw_fields c1 PAY_SLIP data SLIP_WIDTH))
      else Inr c)"

text \<open>The document is returned as its list of pages.\<close>

definition generate_pdf_buffer ::
  "filesystem \<Rightarrow> pydict \<Rightarrow> pydict \<Rightarrow> pydict \<Rightarrow> pyexc + draw_op list list" where
  "generate_pdf_buffer fs trip opts slips =
     ebind (left_half fs (canvas_init (landscape A4)) trip opts slips) (\<lambda>c1.
     ebind (right_half fs c1 trip opts slips) (\<lambda>c2.
     Inr (save (show_page c2))))"

text \<open>A pure specification of the document: the operations each half contributes,
  in drawing order, and the single page they make. \<open>background_ops\<close> is what
  \<open>draw_background\<close> appends, \<open>left_ops\<close> / \<open>right_ops\<close> what the two halves
  append, \<open>slip_document\<close> the page list \<open>save\<close> returns.\<close>

definition background_ops :: "filesystem \<Rightarrow> string \<Rightarrow> pyfloat \<Rightarrow> pyexc + draw_op list" where
  "background_ops fs path x =
     (if path_exists fs path then
        (case fs path of
           BadFile msg \<Rightarrow> Inl (ImageError msg)
         | NoFile \<Rightarrow> Inl (ImageError (''Cannot open resource '' @ path))
         | ImageFile \<Rightarrow> Inr [DrawImage path x (of_pyint 0) SLIP_WIDTH SLIP_HEIGHT])
      else Inr [])"

definition left_ops :: "filesystem \<Rightarrow> pydict \<Rightarrow> pydict \<Rightarrow> pydict \<Rightarrow> pyexc + draw_op list" where
  "left_ops fs trip opts slips =
     (if dict_get opts ''left'' = JStr ''loading_slip'' then
        ebind (background_ops fs (template_path ''loading_slip_template.png'') (of_pyint 0)) (\<lambda>bg.
        ebind (loading_data trip slips) (\<lambda>data.
        ebind (field_ops LOADING_SLIP data (of_pyint 0)) (\<lambda>ops. Inr (bg @ ops))))
      else Inr [])"

definition right_ops :: "filesystem \<Rightarrow> pydict \<Rightarrow> pydict \<Rightarrow> pydict \<Rightarrow> pyexc + draw_op list" where
  "right_ops fs trip opts slips =
     (if dict_get opts ''right'' = JStr ''pay_slip'' then
        ebind (background_ops fs (template_path ''pay_slip_template.png'') SLIP_WIDTH) (\<lambda>bg.
        ebind (pay_data trip slips) (\<lambda>data.
        ebind (field_ops PAY_SLIP data SLIP_WIDTH) (\<lambda>ops. Inr (bg @ ops))))
      else Inr [])"

definition slip_document :: "filesystem \<Rightarrow> pydict \<Rightarrow> pydict \<Rightarrow> pydict \<Rightarrow> pyexc + draw_op list list" where
  "slip_document fs trip opts slips =
     ebind (left_ops fs trip opts slips) (\<lambda>l. ebind (right_ops fs trip opts slips) (\<lambda>r. Inr [l @ r]))"

text \<open>The inputs the service can be given: decoded JSON dicts, and template files that
  are either absent or readable images.\<close>

definition readable :: "filesystem \<Rightarrow> string \<Rightarrow> bool" where
  "readable fs p = (case fs p of BadFile _ \<Rightarrow> False | _ \<Rightarrow> True)"

definition wf_request :: "filesystem \<Rightarrow> pydict \<Rightarrow> pydict \<Rightarrow> bool" where
  "wf_request fs trip slips \<longleftrightarrow>
     wf_dict trip \<and> wf_dict slips \<and> readable fs (template_path ''loading_slip_template.png'')
     \<and> readable fs (template_path ''pay_slip_template.png'')"

abbreviation append_code :: "canvas \<Rightarrow> draw_op list \<Rightarrow> canvas" where
  "append_code c ops \<equiv> c\<lparr>cv_code := cv_code c @ ops\<rparr>"


section \<open>Lemmas: the canvas walk refines the document specification\<close>

lemma draw_text_Inr:
  "py_str (if v = JNull then JStr [] else v) = Inr t \<Longrightarrow>
   draw_text c v x y off = Inr (append_code c [SetFont ''Helvetica-Bold'' 10, DrawString (text_x off x) (text_y y) t])"
  by (simp add: draw_text_def draw_string_def set_font_def)

lemma draw_text_Inl:
  "py_str (if v = JNull then JStr [] else v) = Inl e \<Longrightarrow> draw_text c v x y off = Inl e"
  by (simp add: draw_text_def)

lemma draw_fields_field_ops:
  "draw_fields c tbl data off = map_sum id (append_code c) (field_ops tbl data off)"
proof (induction c tbl data off rule: draw_fields.induct)
  case (1 c data off)
  then show ?case by simp
next
  case (2 c key x y rest data off)
  show ?case
  proof (cases "map_of data key")
    case None
    with "2.IH"(1) show ?thesis by simp
  next
    case (Some v)
    show ?thesis
    proof (cases "py_str (if v = JNull then JStr [] else v)")
      case (Inl e)
      with Some show ?thesis by (simp add: draw_text_Inl)
    next
      case (Inr t)
      let ?c' = "append_code c [SetFont ''Helvetica-Bold'' 10, DrawString (text_x off x) (text_y y) t]"
      have "draw_fields ?c' rest data off = map_sum id (append_code ?c') (field_ops rest data off)"
        using "2.IH"(2) [OF Some] Inr by (simp add: draw_text_Inr id_def)
      with Some Inr show ?thesis
        by (cases "field_ops rest data off") (simp_all add: draw_text_Inr)
    qed
  qed
qed

lemma draw_background_ops:
  "draw_background fs c p x = map_sum id (append_code c) (background_ops fs p x)"
  by (simp add: draw_background_def background_ops_def draw_image_def split: file_state.split)

lemma left_half_ops:
  "left_half fs c trip opts slips = map_sum id (append_code c) (left_ops fs trip opts slips)"
  by (simp add: left_half_def left_ops_def draw_background_ops draw_fields_field_ops map_sum_id_ebind
                ebind_assoc)

lemma right_half_ops:
  "right_half fs c trip opts slips = map_sum id (append_code c) (right_ops fs trip opts slips)"
  by (simp add: right_half_def right_ops_def draw_background_ops draw_fields_field_ops map_sum_id_ebind
                ebind_assoc)

lemma weight_text_wf: "wf_jval w \<Longrightarrow> \<exists>t. weight_text w = Inr (JStr t)"
  using py_str_wf [of w] by (auto simp: weight_text_def)

lemma money_field_wf: "wf_jval v \<Longrightarrow> \<exists>t. money_field v = Inr (JStr t)"
  using format_money_wf [of v] by (auto simp: money_field_def)

lemma loading_data_total:
  assumes "wf_dict trip" "wf_dict slips"
  shows "\<exists>d. loading_data trip slips = Inr d \<and> wf_dict d"
proof -
  obtain w pf pa pb where "weight_text (dict_get trip ''weight'') = Inr (JStr w)"
    "money_field (dict_get trip ''party_freight'') = Inr (JStr pf)"
    "money_field (dict_get trip ''party_advance'') = Inr (JStr pa)"
    "money_field (dict_get trip ''party_balance'') = Inr (JStr pb)"
    using weight_text_wf money_field_wf dict_get_wf [OF assms(1)] by metis
  then show ?thesis using assms
    by (simp add: loading_data_def wf_dict_def dict_get_wf [simplified wf_dict_def] format_date_wf
                  dict_get_default_wf [simplified wf_dict_def])
qed


lemma pay_data_total:
  assumes "wf_dict trip" "wf_dict slips"
  shows "\<exists>d. pay_data trip slips = Inr d \<and> wf_dict d"
proof -
  obtain w gf ga gb where "weight_text (dict_get trip ''weight'') = Inr (JStr w)"
    "money_field (dict_get trip ''gaadi_freight'') = Inr (JStr gf)"
    "money_field (dict_get trip ''gaadi_advance'') = Inr (JStr ga)"
    "money_field (dict_get trip ''gaadi_balance'') = Inr (JStr gb)"
    using weight_text_wf money_field_wf dict_get_wf [OF assms(1)] by metis
  moreover have "wf_jval (driver_mobile trip)"
    using dict_get_wf [OF assms(1)] by (simp add: driver_mobile_def py_or_def)
  ultimately show ?thesis using assms
    by (simp add: pay_data_def wf_dict_def dict_get_wf [simplified wf_dict_def] format_date_wf
                  dict_get_default_wf [simplified wf_dict_def])
qed

lemma field_ops_total: "wf_dict data \<Longrightarrow> \<exists>ops. field_ops tbl data off = Inr ops"
proof (induction tbl data off rule: field_ops.induct)
  case (2 key x y rest data off)
  show ?case
  proof (cases "map_of data key")
    case (Some v)
    then have "wf_jval (if v = JNull then JStr [] else v)" using wf_dict_lookup [OF "2.prems"] by simp
    then obtain t where "py_str (if v = JNull then JStr [] else v) = Inr t" using py_str_wf by blast
    with Some "2.IH"(2) [OF Some "2.prems"] show ?thesis by auto
  qed (use "2.IH"(1) "2.prems" in simp)
qed simp

lemma background_ops_total: "readable fs p \<Longrightarrow> \<exists>ops. background_ops fs p x = Inr ops"
  by (auto simp: readable_def background_ops_def path_exists_def split: file_state.splits)

lemma left_ops_total:
  assumes "wf_request fs trip slips"
  shows "\<exists>l. left_ops fs trip opts slips = Inr l"
proof -
  obtain bg where "background_ops fs (template_path ''loading_slip_template.png'') (of_pyint 0) = Inr bg"
    using assms background_ops_total unfolding wf_request_def by blast
  moreover obtain d where "loading_data trip slips = Inr d" "wf_dict d"
    using assms loading_data_total by (auto simp: wf_request_def)
  moreover obtain ops where "field_ops LOADING_SLIP d (of_pyint 0) = Inr ops"
    using field_ops_total [OF \<open>wf_dict d\<close>] by blast
  ultimately show ?thesis by (simp add: left_ops_def)
qed

lemma right_ops_total:
  assumes "wf_request fs trip slips"
  shows "\<exists>r. right_ops fs trip opts slips = Inr r"
proof -
  obtain bg where "background_ops fs (template_path ''pay_slip_template.png'') SLIP_WIDTH = Inr bg"
    using assms background_ops_total unfolding wf_request_def by blast
  moreover obtain d where "pay_data trip slips = Inr d" "wf_dict d"
    using assms pay_data_total by (auto simp: wf_request_def)
  moreover obtain ops where "field_ops PAY_SLIP d SLIP_WIDTH = Inr ops"
    using field_ops_total [OF \<open>wf_dict d\<close>] by blast
  ultimately show ?thesis by (simp add: right_ops_def)
qed

lemma field_ops_drawn:
  assumes "field_ops tbl data off = Inr ops" "(key, (x, y)) \<in> set tbl" "map_of data key = Some v"
    "py_str (if v = JNull then JStr [] else v) = Inr t"
  shows "DrawString (text_x off x) (text_y y) t \<in> set ops"
  using assms
proof (induction tbl data off arbitrary: ops rule: field_ops.induct)
  case (2 key' x' y' rest data off)
  show ?case
  proof (cases "map_of data key'")
    case None
    with "2.prems" have "key' \<noteq> key" "(key, (x, y)) \<in> set rest" by auto
    with None "2.prems" "2.IH"(1) show ?thesis by simp
  next
    case (Some v')
    with "2.prems"(1) obtain t' ops' where t': "py_str (if v' = JNull then JStr [] else v') = Inr t'"
      and r: "field_ops rest data off = Inr ops'"
      and o: "ops = SetFont ''Helvetica-Bold'' 10 # DrawString (text_x off x') (text_y y') t' # ops'"
      by (auto simp: ebind_eq_Inr)
    show ?thesis
    proof (cases "(key', (x', y')) = (key, (x, y))")
      case True
      with Some t' "2.prems"(3,4) o show ?thesis by (auto split: if_splits)
    next
      case False
      with "2.prems"(2) have "(key, (x, y)) \<in> set rest" by auto
      with "2.IH"(2) [OF Some r _ "2.prems"(3,4)] o show ?thesis by simp
    qed
  qed
qed simp


lemma generate_pdf_buffer_ops:
  "generate_pdf_buffer fs trip opts slips =
     ebind (left_ops fs trip opts slips) (\<lambda>l. ebind (right_ops fs trip opts slips) (\<lambda>r. Inr [l @ r]))"
  by (simp add: generate_pdf_buffer_def left_half_ops right_half_ops ebind_map_sum
                canvas_init_def save_def show_page_def split: sum.split)

lemma loading_data_keys: "loading_data trip slips = Inr d \<Longrightarrow> map fst d = map fst LOADING_SLIP"
  by (auto simp: loading_data_def ebind_eq_Inr LOADING_SLIP_def)

lemma pay_data_keys: "pay_data trip slips = Inr d \<Longrightarrow> map fst d = map fst PAY_SLIP"
  by (auto simp: pay_data_def ebind_eq_Inr PAY_SLIP_def)

lemma table_drawn:
  assumes "field_ops tbl d off = Inr ops" "wf_dict d" "map fst d = map fst tbl" "(key, (x, y)) \<in> set tbl"
  shows "\<exists>t. DrawString (text_x off x) (text_y y) t \<in> set ops"
proof -
  have "key \<in> fst ` set d" using assms(3,4) by (metis fst_conv image_eqI list.set_map)
  then obtain v where v: "map_of d key = Some v" by (metis map_of_eq_None_iff not_None_eq)
  then have "wf_jval (if v = JNull then JStr [] else v)" using wf_dict_lookup [OF assms(2)] by simp
  then obtain t where "py_str (if v = JNull then JStr [] else v) = Inr t" using py_str_wf by blast
  then show ?thesis using field_ops_drawn [OF assms(1,4) v] by blast
qed

lemma left_fields_in_doc:
  assumes "wf_request fs trip slips" "dict_get opts ''left'' = JStr ''loading_slip''"
  shows "\<exists>ops d fo. generate_pdf_buffer fs trip opts slips = Inr [ops] \<and> loading_data trip slips = Inr d
           \<and> wf_dict d \<and> field_ops LOADING_SLIP d (of_pyint 0) = Inr fo \<and> set fo \<subseteq> set ops"
proof -
  obtain bg where bg: "background_ops fs (template_path ''loading_slip_template.png'') (of_pyint 0) = Inr bg"
    using assms background_ops_total unfolding wf_request_def by blast
  obtain d where d: "loading_data trip slips = Inr d" "wf_dict d"
    using assms loading_data_total by (auto simp: wf_request_def)
  obtain fo where fo: "field_ops LOADING_SLIP d (of_pyint 0) = Inr fo"
    using field_ops_total [OF d(2)] by blast
  obtain r where r: "right_ops fs trip opts slips = Inr r" using right_ops_total [OF assms(1)] by blast
  have "generate_pdf_buffer fs trip opts slips = Inr [(bg @ fo) @ r]"
    using assms(2) bg d fo r by (simp add: generate_pdf_buffer_ops left_ops_def)
  with d fo show ?thesis by fastforce
qed

lemma right_fields_in_doc:
  assumes "wf_request fs trip slips" "dict_get opts ''right'' = JStr ''pay_slip''"
  shows "\<exists>ops d fo. generate_pdf_buffer fs trip opts slips = Inr [ops] \<and> pay_data trip slips = Inr d
           \<and> wf_dict d \<and> field_ops PAY_SLIP d SLIP_WIDTH = Inr fo \<and> set fo \<subseteq> set ops"
proof -
  obtain bg where bg: "background_ops fs (template_path ''pay_slip_template.png'') SLIP_WIDTH = Inr bg"
    using assms background_ops_total unfolding wf_request_def by blast
  obtain d where d: "pay_data trip slips = Inr d" "wf_dict d"
    using assms pay_data_total by (auto simp: wf_request_def)
  obtain fo where fo: "field_ops PAY_SLIP d SLIP_WIDTH = Inr fo"
    using field_ops_total [OF d(2)] by blast
  obtain l where l: "left_ops fs trip opts slips = Inr l" using left_ops_total [OF assms(1)] by blast
  have "generate_pdf_buffer fs trip opts slips = Inr [l @ (bg @ fo)]"
    using assms(2) bg d fo l by (simp add: generate_pdf_buffer_ops right_ops_def)
  with d fo show ?thesis by fastforce
qed

lemma draw_background_total:
  "readable fs p \<Longrightarrow> \<exists>ops. draw_background fs c p x = Inr (append_code c ops)"
  using background_ops_total [of fs p x] by (auto simp: draw_background_ops)

lemma draw_fields_total:
  "wf_dict data \<Longrightarrow> \<exists>ops. draw_fields c tbl data off = Inr (append_code c ops)"
  using field_ops_total [of data tbl off] by (auto simp: draw_fields_field_ops)

text \<open>The frame of each half: it succeeds on well-formed input and only appends to the
  current page's stream.\<close>

lemma left_half_total:
  assumes "wf_request fs trip slips"
  shows "\<exists>ops. left_half fs c trip opts slips = Inr (append_code c ops)"
proof (cases "dict_get opts ''left'' = JStr ''loading_slip''")
  case True
  obtain bg where bg: "draw_background fs c (template_path ''loading_slip_template.png'') (of_pyint 0)
                         = Inr (append_code c bg)"
    using assms draw_background_total unfolding wf_request_def by blast
  obtain d where d: "loading_data trip slips = Inr d" "wf_dict d"
    using assms loading_data_total by (auto simp: wf_request_def)
  obtain fo where "draw_fields (append_code c bg) LOADING_SLIP d (of_pyint 0) = Inr (append_code (append_code c bg) fo)"
    using draw_fields_total [OF d(2)] by blast
  with True bg d show ?thesis by (auto simp: left_half_def)
next
  case False
  then show ?thesis by (intro exI [of _ "[]"]) (simp add: left_half_def)
qed

lemma right_half_total:
  assumes "wf_request fs trip slips"
  shows "\<exists>ops. right_half fs c trip opts slips = Inr (append_code c ops)"
proof (cases "dict_get opts ''right'' = JStr ''pay_slip''")
  case True
  obtain bg where bg: "draw_background fs c (template_path ''pay_slip_template.png'') SLIP_WIDTH
                         = Inr (append_code c bg)"
    using assms draw_background_total unfolding wf_request_def by blast
  obtain d where d: "pay_data trip slips = Inr d" "wf_dict d"
    using assms pay_data_total by (auto simp: wf_request_def)
  have "\<forall>off. \<exists>fo. draw_fields (append_code c bg) PAY_SLIP d off = Inr (append_code (append_code c bg) fo)"
    using draw_fields_total [OF d(2)] by blast
  with True bg d show ?thesis by (fastforce simp: right_half_def)
next
  case False
  then show ?thesis by (intro exI [of _ "[]"]) (simp add: right_half_def)
qed

lemma generate_pdf_single_page:
  assumes "wf_request fs trip slips"
  shows "\<exists>ops. generate_pdf_buffer fs trip opts slips = Inr [ops]"
proof -
  obtain l where l: "left_half fs (canvas_init (landscape A4)) trip opts slips
                       = Inr (append_code (canvas_init (landscape A4)) l)"
    using left_half_total [OF assms] by blast
  obtain r where "right_half fs (append_code (canvas_init (landscape A4)) l) trip opts slips
                    = Inr (append_code (append_code (canvas_init (landscape A4)) l) r)"
    using right_half_total [OF assms] by blast
  with l show ?thesis by (simp add: generate_pdf_buffer_def canvas_init_def save_def show_page_def)
qed

text \<open>C1. The canvas code refines the document specification: \<open>generate_pdf_buffer\<close>
  returns exactly what \<open>slip_document\<close> computes, the one page made of the left
  half's operations followed by the right half's, or the same exception.\<close>

lemma generate_pdf_refines:
  "generate_pdf_buffer fs trip opts slips = slip_document fs trip opts slips"
  by (simp add: generate_pdf_buffer_def slip_document_def left_half_ops right_half_ops ebind_map_sum
                canvas_init_def save_def show_page_def split: sum.split)

text \<open>C10. Every document \<open>generate_pdf_buffer\<close> returns has exactly one page.\<close>

lemma generate_pdf_one_page:
  assumes "generate_pdf_buffer fs trip opts slips = Inr doc"
  shows "length doc = 1"
  using assms by (auto simp: generate_pdf_buffer_ops ebind_eq_Inr)

lemma generate_pdf_one_page_witness:
  "generate_pdf_buffer (\<lambda>_. NoFile) [] [] [] = Inr [[]] \<and> length [[] :: draw_op list] = 1"
proof -
  have g: "generate_pdf_buffer (\<lambda>_. NoFile) [] [] [] = Inr [[]]"
    by (simp add: generate_pdf_buffer_ops left_ops_def right_ops_def dict_get_def dict_get_default_def)
  show ?thesis using generate_pdf_one_page [OF g] g by simp
qed

text \<open>C14. When the options select neither slip, the document is one empty page.\<close>

lemma generate_pdf_blank:
  assumes "dict_get opts ''left'' \<noteq> JStr ''loading_slip''" "dict_get opts ''right'' \<noteq> JStr ''pay_slip''"
  shows "generate_pdf_buffer fs trip opts slips = Inr [[]]"
  using assms by (simp add: generate_pdf_buffer_ops left_ops_def right_ops_def)

lemma generate_pdf_blank_witness:
  "dict_get [(''left'', JStr ''pay_slip'')] ''left'' \<noteq> JStr ''loading_slip''
   \<and> dict_get [(''left'', JStr ''pay_slip'')] ''right'' \<noteq> JStr ''pay_slip''
   \<and> generate_pdf_buffer (\<lambda>_. NoFile) [] [(''left'', JStr ''pay_slip'')] [] = Inr [[]]"
proof -
  have h: "dict_get [(''left'', JStr ''pay_slip'')] ''left'' \<noteq> JStr ''loading_slip''"
    "dict_get [(''left'', JStr ''pay_slip'')] ''right'' \<noteq> JStr ''pay_slip''"
    by (simp_all add: dict_get_def dict_get_default_def)
  show ?thesis using generate_pdf_blank [OF h] h by simp
qed

text \<open>C2. On decoded JSON dicts and template files that are absent or readable,
  \<open>generate_pdf_buffer\<close> raises no exception.\<close>

lemma generate_pdf_total:
  assumes "wf_request fs trip slips"
  shows "\<exists>doc. generate_pdf_buffer fs trip opts slips = Inr doc"
  using generate_pdf_single_page [OF assms] by blast

lemma generate_pdf_total_witness:
  "wf_request (\<lambda>_. NoFile) [(''weight'', JInt 12), (''party_freight'', JStr ''4500.50'')] [(''loading'', JInt 7)]
   \<and> (\<exists>doc. generate_pdf_buffer (\<lambda>_. NoFile) [(''weight'', JInt 12), (''party_freight'', JStr ''4500.50'')]
                [(''left'', JStr ''loading_slip'')] [(''loading'', JInt 7)] = Inr doc)"
proof -
  have h: "wf_request (\<lambda>_. NoFile) [(''weight'', JInt 12), (''party_freight'', JStr ''4500.50'')] [(''loading'', JInt 7)]"
    by code_simp
  show ?thesis using generate_pdf_total [OF h] h by blast
qed

text \<open>C9. On the pay slip, when the driver's number is falsy, the motor owner's number
  is drawn in the driver-mobile position.\<close>

lemma driver_mobile_fallback:
  assumes "wf_request fs trip slips" "dict_get opts ''right'' = JStr ''pay_slip''"
    "\<not> truthy (dict_get trip ''driver_number'')" "dict_get trip ''motor_owner_number'' = JStr n"
  shows "\<exists>ops. generate_pdf_buffer fs trip opts slips = Inr [ops]
                \<and> DrawString (text_x SLIP_WIDTH 95) (text_y 64) n \<in> set ops"
proof -
  obtain ops d fo where g: "generate_pdf_buffer fs trip opts slips = Inr [ops]" and d: "pay_data trip slips = Inr d"
    and fo: "field_ops PAY_SLIP d SLIP_WIDTH = Inr fo" and sub: "set fo \<subseteq> set ops"
    using right_fields_in_doc [OF assms(1,2)] by blast
  have "map_of d ''driver_mobile'' = Some (JStr n)"
    using d assms(3,4) by (auto simp: pay_data_def ebind_eq_Inr driver_mobile_def py_or_def)
  moreover have "(''driver_mobile'', (95, 64)) \<in> set PAY_SLIP" by (simp add: PAY_SLIP_def)
  ultimately have "DrawString (text_x SLIP_WIDTH 95) (text_y 64) n \<in> set fo"
    using field_ops_drawn [OF fo] by (simp add: py_str_def)
  with g sub show ?thesis by blast
qed

lemma driver_mobile_fallback_witness:
  "wf_request (\<lambda>_. ImageFile) [(''driver_number'', JStr []), (''motor_owner_number'', JStr ''9876543210'')] []
   \<and> dict_get [(''right'', JStr ''pay_slip'')] ''right'' = JStr ''pay_slip''
   \<and> \<not> truthy (dict_get [(''driver_number'', JStr []), (''motor_owner_number'', JStr ''9876543210'')] ''driver_number'')
   \<and> dict_get [(''driver_number'', JStr []), (''motor_owner_number'', JStr ''9876543210'')] ''motor_owner_number''
         = JStr ''9876543210''
   \<and> (\<exists>ops. generate_pdf_buffer (\<lambda>_. ImageFile) [(''driver_number'', JStr []), (''motor_owner_number'', JStr ''9876543210'')]
                  [(''right'', JStr ''pay_slip'')] [] = Inr [ops]
             \<and> DrawString (text_x SLIP_WIDTH 95) (text_y 64) ''9876543210'' \<in> set ops)"
proof -
  have h: "wf_request (\<lambda>_. ImageFile) [(''driver_number'', JStr []), (''motor_owner_number'', JStr ''9876543210'')] []"
    "dict_get [(''right'', JStr ''pay_slip'')] ''right'' = JStr ''pay_slip''"
    "\<not> truthy (dict_get [(''driver_number'', JStr []), (''motor_owner_number'', JStr ''9876543210'')] ''driver_number'')"
    "dict_get [(''driver_number'', JStr []), (''motor_owner_number'', JStr ''9876543210'')] ''motor_owner_number''
       = JStr ''9876543210''"
    by (simp_all add: wf_request_def wf_dict_def readable_def dict_get_def dict_get_default_def)
  show ?thesis using driver_mobile_fallback [OF h] h by blast
qed

text \<open>C13. When no loading slip number is given, the loading slip shows \<open>PREVIEW\<close> in
  the slip-number position.\<close>

lemma slip_no_preview:
  assumes "wf_request fs trip slips" "dict_get opts ''left'' = JStr ''loading_slip''"
    "map_of slips ''loading'' = None"
  shows "\<exists>ops. generate_pdf_buffer fs trip opts slips = Inr [ops]
                \<and> DrawString (text_x (of_pyint 0) 112) (text_y 35) ''PREVIEW'' \<in> set ops"
proof -
  obtain ops d fo where g: "generate_pdf_buffer fs trip opts slips = Inr [ops]" and d: "loading_data trip slips = Inr d"
    and fo: "field_ops LOADING_SLIP d (of_pyint 0) = Inr fo" and sub: "set fo \<subseteq> set ops"
    using left_fields_in_doc [OF assms(1,2)] by blast
  have "map_of d ''slip_no'' = Some (JStr ''PREVIEW'')"
    using d assms(3) by (auto simp: loading_data_def ebind_eq_Inr dict_get_default_def)
  moreover have "(''slip_no'', (112, 35)) \<in> set LOADING_SLIP" by (simp add: LOADING_SLIP_def)
  ultimately have "DrawString (text_x (of_pyint 0) 112) (text_y 35) ''PREVIEW'' \<in> set fo"
    using field_ops_drawn [OF fo] by (simp add: py_str_def)
  with g sub show ?thesis by blast
qed

lemma slip_no_preview_witness:
  "wf_request (\<lambda>_. NoFile) [] [(''pay'', JInt 41)]
   \<and> dict_get [(''left'', JStr ''loading_slip'')] ''left'' = JStr ''loading_slip''
   \<and> map_of [(''pay'', JInt 41)] ''loading'' = None
   \<and> (\<exists>ops. generate_pdf_buffer (\<lambda>_. NoFile) [] [(''left'', JStr ''loading_slip'')] [(''pay'', JInt 41)] = Inr [ops]
             \<and> DrawString (text_x (of_pyint 0) 112) (text_y 35) ''PREVIEW'' \<in> set ops)"
proof -
  have h: "wf_request (\<lambda>_. NoFile) [] [(''pay'', JInt 41)]"
    "dict_get [(''left'', JStr ''loading_slip'')] ''left'' = JStr ''loading_slip''"
    "map_of [(''pay'', JInt 41)] ''loading'' = None"
    by (code_simp, simp_all add: dict_get_def dict_get_default_def)
  show ?thesis using slip_no_preview [OF h] h by blast
qed

text \<open>C4. With both slips selected, every field of both coordinate tables is drawn at
  its position on the page (the data dicts have exactly the tables' keys).\<close>

lemma all_fields_drawn:
  assumes "wf_request fs trip slips" "dict_get opts ''left'' = JStr ''loading_slip''"
    "dict_get opts ''right'' = JStr ''pay_slip''"
  shows "\<exists>ops. generate_pdf_buffer fs trip opts slips = Inr [ops]
           \<and> (\<forall>(key, (x, y)) \<in> set LOADING_SLIP. \<exists>t. DrawString (text_x (of_pyint 0) x) (text_y y) t \<in> set ops)
           \<and> (\<forall>(key, (x, y)) \<in> set PAY_SLIP. \<exists>t. DrawString (text_x SLIP_WIDTH x) (text_y y) t \<in> set ops)"
proof -
  obtain ops d fo where g: "generate_pdf_buffer fs trip opts slips = Inr [ops]" and d: "loading_data trip slips = Inr d"
    "wf_dict d" and fo: "field_ops LOADING_SLIP d (of_pyint 0) = Inr fo" and sub: "set fo \<subseteq> set ops"
    using left_fields_in_doc [OF assms(1,2)] by blast
  obtain ops' d' fo' where g': "generate_pdf_buffer fs trip opts slips = Inr [ops']" and d': "pay_data trip slips = Inr d'"
    "wf_dict d'" and fo': "field_ops PAY_SLIP d' SLIP_WIDTH = Inr fo'" and sub': "set fo' \<subseteq> set ops'"
    using right_fields_in_doc [OF assms(1,3)] by blast
  have "ops' = ops" using g g' by simp
  then show ?thesis
    using g sub sub' table_drawn [OF fo d(2) loading_data_keys [OF d(1)]]
      table_drawn [OF fo' d'(2) pay_data_keys [OF d'(1)]] by blast
qed

lemma all_fields_drawn_witness:
  "wf_request (\<lambda>_. ImageFile) [(''party_name'', JStr ''Acme'')] []
   \<and> dict_get [(''left'', JStr ''loading_slip''), (''right'', JStr ''pay_slip'')] ''left'' = JStr ''loading_slip''
   \<and> dict_get [(''left'', JStr ''loading_slip''), (''right'', JStr ''pay_slip'')] ''right'' = JStr ''pay_slip''
   \<and> (\<exists>ops. generate_pdf_buffer (\<lambda>_. ImageFile) [(''party_name'', JStr ''Acme'')]
                 [(''left'', JStr ''loading_slip''), (''right'', JStr ''pay_slip'')] [] = Inr [ops]
           \<and> (\<forall>(key, (x, y)) \<in> set LOADING_SLIP. \<exists>t. DrawString (text_x (of_pyint 0) x) (text_y y) t \<in> set ops)
           \<and> (\<forall>(key, (x, y)) \<in> set PAY_SLIP. \<exists>t. DrawString (text_x SLIP_WIDTH x) (text_y y) t \<in> set ops))"
proof -
  have h: "wf_request (\<lambda>_. ImageFile) [(''party_name'', JStr ''Acme'')] []"
    "dict_get [(''left'', JStr ''loading_slip''), (''right'', JStr ''pay_slip'')] ''left'' = JStr ''loading_slip''"
    "dict_get [(''left'', JStr ''loading_slip''), (''right'', JStr ''pay_slip'')] ''right'' = JStr ''pay_slip''"
    by (simp_all add: wf_request_def wf_dict_def readable_def dict_get_def dict_get_default_def)
  show ?thesis using all_fields_drawn [OF h] h by blast
qed

end
