(* ===== verification/Service.thy ===== *)
theory Service
  imports Composer
begin

text \<open>
  \<open>src/pdf_service/app.py\<close>: the request model \<open>GenerateRequest\<close> (as the web
  framework validates it before the handler runs), the handler of
  \<open>POST /print/generate\<close>, which turns any exception of the composer into a 500
  response whose \<open>detail\<close> is the exception's message, and the health check
  \<open>GET /\<close>. Responses are modelled by status, headers and body; the CORS middleware
  around these routes is in \<open>Server\<close>.
\<close>

definition str_or_null :: "jval \<Rightarrow> bool" where
  "str_or_null v = (case v of JNull \<Rightarrow> True | JStr _ \<Rightarrow> True | _ \<Rightarrow> False)"

record gen_request =
  req_trip :: pydict
  req_options :: pydict
  req_slips :: pydict

datatype http_method = GET | POST | OPTIONS

datatype http_body = PdfBody "draw_op list list" | JsonBody jval | TextBody string | ValidationErrorBody

record http_response =
  resp_status :: nat
  resp_headers :: "(string \<times> string) list"
  resp_body :: http_body

text \<open>\<open>GenerateRequest\<close>: three required fields, each a JSON object; the values of
  \<open>options\<close> must be strings or null (\<open>Dict[str, Optional[str]]\<close>).\<close>

definition validate_request :: "jval \<Rightarrow> gen_request option" where
  "validate_request body =
     (case body of
        JObj kvs \<Rightarrow>
          (case (map_of kvs ''tripData'', map_of kvs ''options'', map_of kvs ''slipNumbers'') of
             (Some (JObj tr), Some (JObj opts), Some (JObj sn)) \<Rightarrow>
               if list_all (\<lambda>kv. str_or_null (snd kv)) opts
               then Some \<lparr>req_trip = tr, req_options = opts, req_slips = sn\<rparr> else None
           | _ \<Rightarrow> None)
      | _ \<Rightarrow> None)"

definition json_response :: "nat \<Rightarrow> jval \<Rightarrow> http_response" where
  "json_response st v =
     \<lparr>resp_status = st, resp_headers = [(''content-type'', ''application/json'')], resp_body = JsonBody v\<rparr>"

text \<open>\<open>read_root()\<close> (lines 31--33).\<close>

definition read_root :: http_response where
  "read_root = json_response 200 (JObj [(''status'', JStr ''PDF Service Running'')])"

text \<open>\<open>generate_print(request)\<close> (lines 35--48).\<close>

definition generate_print :: "filesystem \<Rightarrow> gen_request \<Rightarrow> http_response" where
  "generate_print fs req =
     (case generate_pdf_buffer fs (req_trip req) (req_options req) (req_slips req) of
        Inr doc \<Rightarrow>
          \<lparr>resp_status = 200,
           resp_headers = [(''content-disposition'', ''inline; filename=\"generated_slip.pdf\"''),
                           (''content-type'', ''application/pdf'')],
           resp_body = PdfBody doc\<rparr>
      | Inl e \<Rightarrow> json_response 500 (JObj [(''detail'', JStr (exc_message e))]))"

text \<open>The two routes as FastAPI's router dispatches them. A body that fails validation
  is answered with 422 (a JSON list of errors, \<open>ValidationErrorBody\<close>); a known path
  with another method with 405 and an \<open>allow\<close> header naming the route's one method;
  \<open>/print/generate/\<close> with Starlette's trailing-slash redirect 307 (the
  \<open>location\<close> is the request URL with the slash removed; only its path is kept
  here); any other path with 404.\<close>

definition handle :: "filesystem \<Rightarrow> http_method \<Rightarrow> string \<Rightarrow> jval \<Rightarrow> http_response" where
  "handle fs meth path body =
     (if meth = GET \<and> path = ''/'' then read_root
      else if meth = POST \<and> path = ''/print/generate'' then
        (case validate_request body of
           None \<Rightarrow> \<lparr>resp_status = 422, resp_headers = [(''content-type'', ''application/json'')],
                   resp_body = ValidationErrorBody\<rparr>
         | Some req \<Rightarrow> generate_print fs req)
      else if path = ''/'' \<or> path = ''/print/generate'' then
        (json_response 405 (JObj [(''detail'', JStr ''Method Not Allowed'')]))
          \<lparr>resp_headers := (''allow'', if path = ''/'' then ''GET'' else ''POST'')
                           # [(''content-type'', ''application/json'')]\<rparr>
      else if path = ''/print/generate/'' then
        \<lparr>resp_status = 307, resp_headers = [(''location'', ''/print/generate'')], resp_body = TextBody []\<rparr>
      else json_response 404 (JObj [(''detail'', JStr ''Not Found'')]))"


section \<open>Properties of the endpoint\<close>

lemma handle_generate_route:
  "validate_request body = Some req \<Longrightarrow> handle fs POST ''/print/generate'' body = generate_print fs req"
  by (simp add: handle_def)

text \<open>C3. A valid request whose trip data and slip numbers are decoded JSON, with the
  templates absent or readable, is answered with status 200, the inline PDF headers,
  and a one-page document.\<close>

lemma handle_generate_ok:
  assumes "validate_request body = Some req" "wf_request fs (req_trip req) (req_slips req)"
  shows "\<exists>ops. handle fs POST ''/print/generate'' body =
           \<lparr>resp_status = 200,
            resp_headers = [(''content-disposition'', ''inline; filename=\"generated_slip.pdf\"''),
                            (''content-type'', ''application/pdf'')],
            resp_body = PdfBody [ops]\<rparr>"
  using generate_pdf_single_page [OF assms(2), of "req_options req"]
  by (auto simp: handle_generate_route [OF assms(1)] generate_print_def)

lemma handle_generate_ok_witness:
  "validate_request (JObj [(''tripData'', JObj [(''party_name'', JStr ''Acme'')]),
                           (''options'', JObj [(''left'', JStr ''loading_slip''), (''right'', JNull)]),
                           (''slipNumbers'', JObj [])])
     = Some \<lparr>req_trip = [(''party_name'', JStr ''Acme'')],
             req_options = [(''left'', JStr ''loading_slip''), (''right'', JNull)], req_slips = []\<rparr>
   \<and> wf_request (\<lambda>_. ImageFile) [(''party_name'', JStr ''Acme'')] []
   \<and> (\<exists>ops. handle (\<lambda>_. ImageFile) POST ''/print/generate''
              (JObj [(''tripData'', JObj [(''party_name'', JStr ''Acme'')]),
                     (''options'', JObj [(''left'', JStr ''loading_slip''), (''right'', JNull)]),
                     (''slipNumbers'', JObj [])]) =
            \<lparr>resp_status = 200,
             resp_headers = [(''content-disposition'', ''inline; filename=\"generated_slip.pdf\"''),
                             (''content-type'', ''application/pdf'')],
             resp_body = PdfBody [ops]\<rparr>)"
proof -
  have v: "validate_request (JObj [(''tripData'', JObj [(''party_name'', JStr ''Acme'')]),
                           (''options'', JObj [(''left'', JStr ''loading_slip''), (''right'', JNull)]),
                           (''slipNumbers'', JObj [])])
     = Some \<lparr>req_trip = [(''party_name'', JStr ''Acme'')],
             req_options = [(''left'', JStr ''loading_slip''), (''right'', JNull)], req_slips = []\<rparr>"
    by (simp add: validate_request_def str_or_null_def)
  have w: "wf_request (\<lambda>_. ImageFile) [(''party_name'', JStr ''Acme'')] []"
    by (simp add: wf_request_def wf_dict_def readable_def)
  show ?thesis using handle_generate_ok [OF v] w v by simp
qed

text \<open>C7. An exception of the composer becomes a 500 response whose \<open>detail\<close> is the
  exception's message; no partial document is sent.\<close>

lemma handle_generate_error:
  assumes "validate_request body = Some req"
    "generate_pdf_buffer fs (req_trip req) (req_options req) (req_slips req) = Inl e"
  shows "handle fs POST ''/print/generate'' body = json_response 500 (JObj [(''detail'', JStr (exc_message e))])"
  using assms by (simp add: handle_generate_route generate_print_def)

lemma handle_generate_error_witness:
  "validate_request (JObj [(''tripData'', JObj []), (''options'', JObj [(''right'', JStr ''pay_slip'')]),
                           (''slipNumbers'', JObj [])])
     = Some \<lparr>req_trip = [], req_options = [(''right'', JStr ''pay_slip'')], req_slips = []\<rparr>
   \<and> generate_pdf_buffer (\<lambda>_. BadFile ''cannot identify image file'') [] [(''right'', JStr ''pay_slip'')] []
       = Inl (ImageError ''cannot identify image file'')
   \<and> handle (\<lambda>_. BadFile ''cannot identify image file'') POST ''/print/generate''
       (JObj [(''tripData'', JObj []), (''options'', JObj [(''right'', JStr ''pay_slip'')]), (''slipNumbers'', JObj [])])
     = json_response 500 (JObj [(''detail'', JStr (exc_message (ImageError ''cannot identify image file'')))])"
proof -
  have v: "validate_request (JObj [(''tripData'', JObj []), (''options'', JObj [(''right'', JStr ''pay_slip'')]),
                           (''slipNumbers'', JObj [])])
     = Some \<lparr>req_trip = [], req_options = [(''right'', JStr ''pay_slip'')], req_slips = []\<rparr>"
    by (simp add: validate_request_def str_or_null_def)
  have g: "generate_pdf_buffer (\<lambda>_. BadFile ''cannot identify image file'') [] [(''right'', JStr ''pay_slip'')] []
       = Inl (ImageError ''cannot identify image file'')"
    by (simp add: generate_pdf_buffer_def left_half_def right_half_def draw_background_def draw_image_def
                  path_exists_def dict_get_def dict_get_default_def)
  show ?thesis using handle_generate_error [OF v] v g by simp
qed

text \<open>C19. A request whose \<open>options\<close> hold a value that is neither a string nor null
  fails validation and is answered with 422 before the composer runs.\<close>

lemma handle_bad_option:
  assumes "map_of kvs ''options'' = Some (JObj opts)" "\<not> list_all (\<lambda>kv. str_or_null (snd kv)) opts"
  shows "resp_status (handle fs POST ''/print/generate'' (JObj kvs)) = 422"
  using assms by (auto simp: handle_def validate_request_def split: option.split jval.split)

lemma handle_bad_option_witness:
  "map_of [(''tripData'', JObj []), (''options'', JObj [(''left'', JInt 1)]), (''slipNumbers'', JObj [])] ''options''
     = Some (JObj [(''left'', JInt 1)])
   \<and> \<not> list_all (\<lambda>kv. str_or_null (snd kv)) [(''left'', JInt 1)]
   \<and> resp_status (handle (\<lambda>_. NoFile) POST ''/print/generate''
        (JObj [(''tripData'', JObj []), (''options'', JObj [(''left'', JInt 1)]), (''slipNumbers'', JObj [])])) = 422"
proof -
  have h: "map_of [(''tripData'', JObj []), (''options'', JObj [(''left'', JInt 1)]), (''slipNumbers'', JObj [])] ''options''
     = Some (JObj [(''left'', JInt 1)])" "\<not> list_all (\<lambda>kv. str_or_null (snd kv)) [(''left'', JInt 1)]"
    by (simp_all add: str_or_null_def)
  show ?thesis using handle_bad_option [OF h] h by simp
qed

end
