(* ===== verification/Server.thy ===== *)
theory Server
  imports Service "HOL-Library.List_Lexorder" "HOL-Library.Char_ord"
begin

text \<open>
  The application object of \<open>src/pdf_service/app.py\<close> as a server: the CORS middleware
  configured on lines 12--24 wrapped around the routes of \<open>Service\<close>, and the start-up
  block of lines 50--53, which reads the port from the environment with \<open>int()\<close>.
  The middleware is Starlette's \<open>CORSMiddleware\<close>: its constructor derives the header
  sets once from the configuration, and each request with an \<open>Origin\<close> header is
  either answered as a preflight or passed to the routes, whose response headers it
  then updates. Header lists are in the order the response carries them (the
  \<open>content-length\<close> header, which only depends on the body, is left out).
\<close>

section \<open>int() of a string\<close>

text \<open>
  \<open>int(s)\<close> in base 10 (CPython \<open>PyLong_FromString\<close>): leading whitespace, an
  optional sign, then the longest run of digits and underscores, which must be
  non-empty with single underscores between digits; more than 4300 digits in that run
  raise the digit-limit \<open>ValueError\<close> before the rest of the string is looked at;
  the rest must be whitespace. Every other malformed string raises \<open>ValueError\<close> with
  the \<open>repr\<close> of the argument, cut at 200 characters.
\<close>

definition int_digits_ok :: "string \<Rightarrow> bool" where
  "int_digits_ok ds \<longleftrightarrow>
     ds \<noteq> [] \<and> list_all (\<lambda>c. is_digit c \<or> c = CHR ''_'') ds \<and> underscores_ok CHR ''x'' ds"

definition py_int_of_str :: "string \<Rightarrow> pyexc + int" where
  "py_int_of_str s =
     (let (neg, t) = split_sign (dropWhile py_space s);
          ds = takeWhile (\<lambda>c. is_digit c \<or> c = CHR ''_'') t;
          rest = dropWhile (\<lambda>c. is_digit c \<or> c = CHR ''_'') t;
          n = length (filter is_digit ds);
          invalid = Inl (ValueError (''invalid literal for int() with base 10: '' @ take 200 (str_repr s)))
      in if \<not> int_digits_ok ds then invalid
         else if int_digit_limit < n
         then Inl (ValueError (''Exceeds the limit (4300 digits) for integer string conversion: value has ''
                               @ show_nat n @ '' digits; use sys.set_int_max_str_digits() to increase the limit''))
         else if \<not> list_all py_space rest then invalid
         else Inr ((if neg then - 1 else 1) * int (read_digits (filter is_digit ds))))"

section \<open>Start-up: the listening address\<close>

type_synonym environ = "string \<Rightarrow> string option"

text \<open>\<open>port = int(os.getenv("PORT", 8000))\<close>; \<open>uvicorn.run(app, host="0.0.0.0",
  port=port)\<close>. The result is the address the server is started on.\<close>

definition server_main :: "environ \<Rightarrow> pyexc + (string \<times> int)" where
  "server_main env =
     ebind (case env ''PORT'' of None \<Rightarrow> Inr 8000 | Some s \<Rightarrow> py_int_of_str s) (\<lambda>port.
     Inr (''0.0.0.0'', port))"


section \<open>Headers\<close>

type_synonym headers = "(string \<times> string) list"

text \<open>\<open>str.lower()\<close> on a Latin-1 character.\<close>

definition py_lower_char :: "char \<Rightarrow> char" where
  "py_lower_char c =
     (let n = (of_char c :: nat)
      in if (65 \<le> n \<and> n \<le> 90) \<or> (192 \<le> n \<and> n \<le> 222 \<and> n \<noteq> 215) then char_of (n + 32) else c)"

definition py_lower :: "string \<Rightarrow> string" where
  "py_lower s = map py_lower_char s"

text \<open>Starlette's \<open>MutableHeaders.__setitem__\<close>: the key is stored lower-cased; the
  first entry with that key is replaced and the others are deleted, or the entry is
  appended.\<close>

definition set_header :: "headers \<Rightarrow> string \<Rightarrow> string \<Rightarrow> headers" where
  "set_header hs k v =
     (let k' = py_lower k;
          pre = takeWhile (\<lambda>kv. fst kv \<noteq> k') hs;
          post = dropWhile (\<lambda>kv. fst kv \<noteq> k') hs
      in if post = [] then hs @ [(k', v)]
         else pre @ (k', v) # filter (\<lambda>kv. fst kv \<noteq> k') (tl post))"

text \<open>\<open>MutableHeaders.update(d)\<close>: \<open>__setitem__\<close> for each item in order.\<close>

definition update_headers :: "headers \<Rightarrow> headers \<Rightarrow> headers" where
  "update_headers hs d = foldl (\<lambda>acc kv. set_header acc (fst kv) (snd kv)) hs d"

text \<open>\<open>MutableHeaders.add_vary_header(v)\<close>.\<close>

definition add_vary_header :: "headers \<Rightarrow> string \<Rightarrow> headers" where
  "add_vary_header hs v =
     (case map_of hs ''vary'' of
        Some old \<Rightarrow> set_header hs ''vary'' (old @ '', '' @ v)
      | None \<Rightarrow> set_header hs ''vary'' v)"

text \<open>A dict of headers built by the middleware (\<open>preflight_headers\<close>): Python dict
  assignment replaces the value of a present key in place, or appends.\<close>

definition dict_set :: "headers \<Rightarrow> string \<Rightarrow> string \<Rightarrow> headers" where
  "dict_set d k v = (if k \<in> fst ` set d then map (\<lambda>kv. if fst kv = k then (k, v) else kv) d else d @ [(k, v)])"

section \<open>The CORS middleware\<close>

record cors_config =
  cc_allow_origins :: "string list"
  cc_allow_methods :: "string list"
  cc_allow_headers :: "string list"
  cc_allow_credentials :: bool

text \<open>\<open>origins\<close> and \<open>app.add_middleware(CORSMiddleware, ...)\<close> (lines 12--24).\<close>

definition origins :: "string list" where
  "origins = [''http://localhost:5173'', ''https://transport-erp-previous.vercel.app'', ''*'']"

definition app_cors :: cors_config where
  "app_cors = \<lparr>cc_allow_origins = origins, cc_allow_methods = [''*''], cc_allow_headers = [''*''],
               cc_allow_credentials = True\<rparr>"

text \<open>What \<open>CORSMiddleware.__init__\<close> derives from its arguments.\<close>

definition ALL_METHODS :: "string list" where
  "ALL_METHODS = [''DELETE'', ''GET'', ''HEAD'', ''OPTIONS'', ''PATCH'', ''POST'', ''PUT'']"

definition SAFELISTED_HEADERS :: "string list" where
  "SAFELISTED_HEADERS = [''Accept'', ''Accept-Language'', ''Content-Language'', ''Content-Type'']"

definition cors_methods :: "cors_config \<Rightarrow> string list" where
  "cors_methods cfg = (if ''*'' \<in> set (cc_allow_methods cfg) then ALL_METHODS else cc_allow_methods cfg)"

definition allow_all_origins :: "cors_config \<Rightarrow> bool" where
  "allow_all_origins cfg \<longleftrightarrow> ''*'' \<in> set (cc_allow_origins cfg)"

definition allow_all_headers :: "cors_config \<Rightarrow> bool" where
  "allow_all_headers cfg \<longleftrightarrow> ''*'' \<in> set (cc_allow_headers cfg)"

definition cors_allowed_headers :: "cors_config \<Rightarrow> string list" where
  "cors_allowed_headers cfg = map py_lower (sorted_list_of_set (set SAFELISTED_HEADERS \<union> set (cc_allow_headers cfg)))"

definition preflight_explicit_allow_origin :: "cors_config \<Rightarrow> bool" where
  "preflight_explicit_allow_origin cfg \<longleftrightarrow> \<not> allow_all_origins cfg \<or> cc_allow_credentials cfg"

definition simple_headers :: "cors_config \<Rightarrow> headers" where
  "simple_headers cfg =
     (if allow_all_origins cfg then [(''Access-Control-Allow-Origin'', ''*'')] else [])
     @ (if cc_allow_credentials cfg then [(''Access-Control-Allow-Credentials'', ''true'')] else [])"

definition preflight_headers :: "cors_config \<Rightarrow> headers" where
  "preflight_headers cfg =
     (if preflight_explicit_allow_origin cfg then [(''Vary'', ''Origin'')]
      else [(''Access-Control-Allow-Origin'', ''*'')])
     @ [(''Access-Control-Allow-Methods'', join_sep '', '' (cors_methods cfg)),
        (''Access-Control-Max-Age'', ''600'')]
     @ (if \<not> allow_all_headers cfg
        then [(''Access-Control-Allow-Headers'', join_sep '', '' (sorted_list_of_set (set SAFELISTED_HEADERS \<union> set (cc_allow_headers cfg))))]
        else [])
     @ (if cc_allow_credentials cfg then [(''Access-Control-Allow-Credentials'', ''true'')] else [])"

definition is_allowed_origin :: "cors_config \<Rightarrow> string \<Rightarrow> bool" where
  "is_allowed_origin cfg origin \<longleftrightarrow> allow_all_origins cfg \<or> origin \<in> set (cc_allow_origins cfg)"

text \<open>\<open>preflight_response(request_headers)\<close>: the failures are collected in the order
  origin, method, headers; a plain-text response of status 400 or 200.\<close>

definition preflight_response :: "cors_config \<Rightarrow> string \<Rightarrow> string \<Rightarrow> string option \<Rightarrow> http_response" where
  "preflight_response cfg origin req_method req_headers =
     (let h0 = preflight_headers cfg;
          (h1, f1) = (if is_allowed_origin cfg origin
                      then (if preflight_explicit_allow_origin cfg
                            then dict_set h0 ''Access-Control-Allow-Origin'' origin else h0, [])
                      else (h0, [''origin'']));
          f2 = f1 @ (if req_method \<in> set (cors_methods cfg) then [] else [''method'']);
          (h3, f3) = (case req_headers of
                        None \<Rightarrow> (h1, f2)
                      | Some rh \<Rightarrow>
                          if allow_all_headers cfg then (dict_set h1 ''Access-Control-Allow-Headers'' rh, f2)
                          else (h1, f2 @ (if list_all (\<lambda>h. py_strip (py_lower h) \<in> set (cors_allowed_headers cfg))
                                                      (split_on CHR '','' rh)
                                          then [] else [''headers''])));
          hs = map (\<lambda>kv. (py_lower (fst kv), snd kv)) h3 @ [(''content-type'', ''text/plain; charset=utf-8'')]
      in if f3 \<noteq> []
         then \<lparr>resp_status = 400, resp_headers = hs, resp_body = TextBody (''Disallowed CORS '' @ join_sep '', '' f3)\<rparr>
         else \<lparr>resp_status = 200, resp_headers = hs, resp_body = TextBody ''OK''\<rparr>)"

text \<open>The \<open>send\<close> wrapper of a simple (non-preflight) request: the simple headers are
  set on the response; the request's origin is echoed when all origins are allowed
  and the request carries a cookie, or when the origin is one of the listed ones.\<close>

definition allow_explicit_origin :: "headers \<Rightarrow> string \<Rightarrow> headers" where
  "allow_explicit_origin hs origin = add_vary_header (set_header hs ''Access-Control-Allow-Origin'' origin) ''Origin''"

definition simple_response :: "cors_config \<Rightarrow> headers \<Rightarrow> string \<Rightarrow> http_response \<Rightarrow> http_response" where
  "simple_response cfg req_hs origin resp =
     (let hs = update_headers (resp_headers resp) (simple_headers cfg);
          has_cookie = (''cookie'' \<in> fst ` set req_hs);
          hs' = (if allow_all_origins cfg \<and> has_cookie then allow_explicit_origin hs origin
                 else if \<not> allow_all_origins cfg \<and> is_allowed_origin cfg origin
                 then allow_explicit_origin hs origin else hs)
      in resp\<lparr>resp_headers := hs'\<rparr>)"

record http_request =
  rq_method :: http_method
  rq_path :: string
  rq_headers :: headers
  rq_body :: jval

definition method_name :: "http_method \<Rightarrow> string" where
  "method_name m = (case m of GET \<Rightarrow> ''GET'' | POST \<Rightarrow> ''POST'' | OPTIONS \<Rightarrow> ''OPTIONS'')"

text \<open>\<open>CORSMiddleware.__call__\<close>: requests without an \<open>Origin\<close> header go to the
  application unchanged; an \<open>OPTIONS\<close> request with
  \<open>Access-Control-Request-Method\<close> is answered by the middleware itself.\<close>

definition cors_app :: "cors_config \<Rightarrow> (http_request \<Rightarrow> http_response) \<Rightarrow> http_request \<Rightarrow> http_response" where
  "cors_app cfg inner rq =
     (case map_of (rq_headers rq) ''origin'' of
        None \<Rightarrow> inner rq
      | Some origin \<Rightarrow>
          (case (rq_method rq, map_of (rq_headers rq) ''access-control-request-method'') of
             (OPTIONS, Some m) \<Rightarrow>
               preflight_response cfg origin m (map_of (rq_headers rq) ''access-control-request-headers'')
           | _ \<Rightarrow> simple_response cfg (rq_headers rq) origin (inner rq)))"

text \<open>The application as served: the middleware around the routes.\<close>

definition serve :: "filesystem \<Rightarrow> http_request \<Rightarrow> http_response" where
  "serve fs rq = cors_app app_cors (\<lambda>r. handle fs (rq_method r) (rq_path r) (rq_body r)) rq"

section \<open>Lemmas: int() and the start-up\<close>

lemma underscores_ok_digits: "list_all is_digit ds \<Longrightarrow> prev \<noteq> CHR ''_'' \<Longrightarrow> underscores_ok prev ds"
  by (induction prev ds rule: underscores_ok.induct) (auto simp: is_digit_def)

lemma digit_not_space: "is_digit c \<Longrightarrow> \<not> py_space c"
  by (auto simp: is_digit_def py_space_def)

lemma show_nat_hd_digit: "is_digit (hd (show_nat n))"
  using show_nat_digits [of "hd (show_nat n)" n] show_nat_ne [of n] by (simp add: hd_in_set)

lemma py_int_of_show_nat:
  assumes "length (show_nat n) \<le> int_digit_limit" and that: "sg = [] \<or> sg = ''-''"
  shows "py_int_of_str (sg @ show_nat n) = Inr ((if sg = ''-'' then - 1 else 1) * int n)"
proof -
  have dig: "list_all is_digit (show_nat n)" by (simp add: list_all_iff)
  have tw: "takeWhile (\<lambda>c. is_digit c \<or> c = CHR ''_'') (show_nat n) = show_nat n"
    and dw: "dropWhile (\<lambda>c. is_digit c \<or> c = CHR ''_'') (show_nat n) = []"
    by (simp_all add: takeWhile_eq_all_conv dropWhile_eq_Nil_conv)
  have fl: "filter is_digit (show_nat n) = show_nat n" by (simp add: filter_id_conv)
  have ok: "int_digits_ok (show_nat n)"
    using dig by (auto simp: int_digits_ok_def list_all_iff intro: underscores_ok_digits)
  have dws: "dropWhile py_space (sg @ show_nat n) = sg @ show_nat n"
  proof (cases "sg = []")
    case True
    then show ?thesis
      using show_nat_hd_digit [of n] show_nat_ne [of n]
      by (cases "show_nat n") (auto dest: digit_not_space)
  next
    case False
    with that show ?thesis by (simp add: py_space_def)
  qed
  have ss: "split_sign (sg @ show_nat n) = (sg = ''-'', show_nat n)"
    using that show_nat_hd_digit [of n] show_nat_ne [of n]
    by (cases "show_nat n") (auto simp: split_sign_def is_digit_def)
  show ?thesis
    using assms ok by (simp add: py_int_of_str_def dws ss tw dw fl)
qed

text \<open>C21. The server starts on \<open>0.0.0.0\<close> and on whatever port number \<open>PORT\<close> holds:
  there is no range check, so a value such as \<open>70000\<close> is passed on to the server.\<close>

lemma server_main_port:
  assumes "length (show_nat n) \<le> int_digit_limit"
  shows "server_main (\<lambda>k. if k = ''PORT'' then Some (show_nat n) else None) = Inr (''0.0.0.0'', int n)"
  using py_int_of_show_nat [OF assms, of "[]"] by (simp add: server_main_def)

lemma server_main_port_witness:
  "length (show_nat 70000) \<le> int_digit_limit
   \<and> server_main (\<lambda>k. if k = ''PORT'' then Some (show_nat 70000) else None) = Inr (''0.0.0.0'', 70000)"
proof -
  have h: "length (show_nat 70000) \<le> int_digit_limit" by (simp add: int_digit_limit_def digit_simps)
  show ?thesis using server_main_port [OF h] h by simp
qed

lemma int_digits_ok_digit: "int_digits_ok ds \<Longrightarrow> \<exists>c\<in>set ds. is_digit c"
  by (cases ds) (auto simp: int_digits_ok_def is_digit_def)

lemma set_split_sign: "set (snd (split_sign t)) \<subseteq> set t"
  by (auto simp: split_sign_def split: list.split)

lemma py_int_of_str_no_digit:
  assumes "list_all (\<lambda>c. \<not> is_digit c) s"
  shows "py_int_of_str s = Inl (ValueError (''invalid literal for int() with base 10: '' @ take 200 (str_repr s)))"
proof -
  obtain neg t where st: "split_sign (dropWhile py_space s) = (neg, t)" by fastforce
  have "set t \<subseteq> set s"
    using set_split_sign [of "dropWhile py_space s"] set_dropWhileD [of _ py_space s] st by auto
  then have "\<not> int_digits_ok (takeWhile (\<lambda>c. is_digit c \<or> c = CHR ''_'') t)"
    using assms int_digits_ok_digit by (fastforce simp: list_all_iff dest: set_takeWhileD)
  then show ?thesis by (simp add: py_int_of_str_def st)
qed

text \<open>C22. A \<open>PORT\<close> value without any decimal digit stops the start-up with the
  \<open>ValueError\<close> of \<open>int()\<close>, whose message quotes the value (its \<open>repr\<close>, cut at
  200 characters), whatever the rest of the environment holds.\<close>

lemma server_main_errors:
  assumes "env ''PORT'' = Some s" "list_all (\<lambda>c. \<not> is_digit c) s"
  shows "server_main env = Inl (ValueError (''invalid literal for int() with base 10: '' @ take 200 (str_repr s)))"
  using assms py_int_of_str_no_digit [OF assms(2)] by (simp add: server_main_def)

lemma server_main_errors_witness:
  "(\<lambda>k. if k = ''PORT'' then Some ''eighty'' else None) ''PORT'' = Some ''eighty''
   \<and> list_all (\<lambda>c. \<not> is_digit c) ''eighty''
   \<and> server_main (\<lambda>k. if k = ''PORT'' then Some ''eighty'' else None)
       = Inl (ValueError (''invalid literal for int() with base 10: '' @ [CHR 0x27] @ ''eighty'' @ [CHR 0x27]))"
proof -
  have h: "(\<lambda>k. if k = ''PORT'' then Some ''eighty'' else None) ''PORT'' = Some ''eighty''"
    "list_all (\<lambda>c. \<not> is_digit c) ''eighty''" by (simp_all add: is_digit_def)
  have "take 200 (str_repr ''eighty'') = [CHR 0x27] @ ''eighty'' @ [CHR 0x27]"
    by (simp add: str_repr_def escape_char_def printable_def Let_def)
  then show ?thesis using server_main_errors [of "\<lambda>k. if k = ''PORT'' then Some ''eighty'' else None", OF h] h by simp
qed

section \<open>Lemmas: the CORS middleware\<close>

lemma map_of_filter_other: "k' \<noteq> k \<Longrightarrow> map_of (filter (\<lambda>kv. fst kv \<noteq> k) xs) k' = map_of xs k'"
  by (induction xs) auto

lemma map_of_takeWhile_key: "map_of (takeWhile (\<lambda>kv. fst kv \<noteq> k) xs) k = None"
  by (induction xs) auto

lemma map_of_set_header:
  "map_of (set_header hs k v) x = (if x = py_lower k then Some v else map_of hs x)"
proof -
  let ?p = "\<lambda>kv. fst kv \<noteq> py_lower k"
  let ?pre = "takeWhile ?p hs" and ?post = "dropWhile ?p hs"
  show ?thesis
  proof (cases "?post = []")
    case True
    then have "py_lower k \<notin> fst ` set hs" by (auto simp: dropWhile_eq_Nil_conv)
    then have none: "map_of hs (py_lower k) = None" by (simp add: map_of_eq_None_iff)
    have "set_header hs k v = hs @ [(py_lower k, v)]" using True by (simp add: set_header_def Let_def)
    with none show ?thesis by (auto simp: map_add_def split: option.split)
  next
    case False
    have key: "fst (hd ?post) = py_lower k" using hd_dropWhile [OF False] by simp
    have whole: "map_of (?pre @ hd ?post # tl ?post) x = map_of hs x" using False by simp
    have sh: "set_header hs k v = ?pre @ (py_lower k, v) # filter ?p (tl ?post)"
      using False by (simp add: set_header_def Let_def del: dropWhile_eq_Nil_conv)
    show ?thesis
    proof (cases "x = py_lower k")
      case True
      then show ?thesis by (simp add: sh map_of_append map_add_def map_of_takeWhile_key)
    next
      case False
      have "map_of (set_header hs k v) x = map_of (?pre @ hd ?post # tl ?post) x"
        using False key by (simp add: sh map_of_append map_add_def map_of_filter_other split: option.split)
      with False whole show ?thesis by simp
    qed
  qed
qed


lemma py_lower_header_names:
  "py_lower ''Access-Control-Allow-Origin'' = ''access-control-allow-origin''"
  "py_lower ''Access-Control-Allow-Credentials'' = ''access-control-allow-credentials''"
  "py_lower ''Access-Control-Allow-Methods'' = ''access-control-allow-methods''"
  "py_lower ''Access-Control-Allow-Headers'' = ''access-control-allow-headers''"
  "py_lower ''Access-Control-Max-Age'' = ''access-control-max-age''"
  "py_lower ''Vary'' = ''vary''"
  "py_lower ''vary'' = ''vary''"
  by code_simp+

lemma app_cors_flags:
  "allow_all_origins app_cors" "allow_all_headers app_cors" "cc_allow_credentials app_cors"
  "preflight_explicit_allow_origin app_cors" "cors_methods app_cors = ALL_METHODS"
  by (simp_all add: allow_all_origins_def allow_all_headers_def preflight_explicit_allow_origin_def
                    cors_methods_def app_cors_def origins_def)

lemma simple_response_app_cors:
  "simple_response app_cors req_hs origin resp =
     resp\<lparr>resp_headers :=
       (let hs = set_header (set_header (resp_headers resp) ''Access-Control-Allow-Origin'' ''*'')
                   ''Access-Control-Allow-Credentials'' ''true''
        in if ''cookie'' \<in> fst ` set req_hs then allow_explicit_origin hs origin else hs)\<rparr>"
  by (simp add: simple_response_def app_cors_flags simple_headers_def update_headers_def Let_def)

lemma serve_simple:
  assumes "map_of (rq_headers rq) ''origin'' = Some origin" "rq_method rq \<noteq> OPTIONS"
  shows "serve fs rq = simple_response app_cors (rq_headers rq) origin
                         (handle fs (rq_method rq) (rq_path rq) (rq_body rq))"
  using assms by (cases "rq_method rq") (simp_all add: serve_def cors_app_def)

lemma set_header_absent:
  "py_lower k \<notin> fst ` set hs \<Longrightarrow> set_header hs k v = hs @ [(py_lower k, v)]"
  by (force simp: set_header_def Let_def)

lemma handle_header_keys:
  "fst ` set (resp_headers (handle fs m p b)) \<subseteq> {''content-type'', ''content-disposition'', ''allow'', ''location''}"
  by (auto simp: handle_def read_root_def json_response_def generate_print_def split: option.split sum.split)

text \<open>C11. For every request that is not a preflight and carries no cookie, the
  served response is the routes' response; when the request has an \<open>Origin\<close>
  header, exactly the two headers \<open>access-control-allow-origin: *\<close> and
  \<open>access-control-allow-credentials: true\<close> are appended, and status and body are
  unchanged.\<close>

lemma serve_preserves_response:
  assumes "rq_method rq \<noteq> OPTIONS" "''cookie'' \<notin> fst ` set (rq_headers rq)"
  shows "serve fs rq =
    (let r = handle fs (rq_method rq) (rq_path rq) (rq_body rq)
     in case map_of (rq_headers rq) ''origin'' of
          None \<Rightarrow> r
        | Some _ \<Rightarrow> r\<lparr>resp_headers := resp_headers r @ [(''access-control-allow-origin'', ''*''),
                                                        (''access-control-allow-credentials'', ''true'')]\<rparr>)"
proof (cases "map_of (rq_headers rq) ''origin''")
  case None
  then show ?thesis by (simp add: serve_def cors_app_def)
next
  case (Some origin)
  let ?r = "handle fs (rq_method rq) (rq_path rq) (rq_body rq)"
  have k: "fst ` set (resp_headers ?r) \<subseteq> {''content-type'', ''content-disposition'', ''allow'', ''location''}"
    by (rule handle_header_keys)
  have a: "''access-control-allow-origin'' \<notin> fst ` set (resp_headers ?r)" using k by blast
  have c: "''access-control-allow-credentials'' \<notin> fst ` set (resp_headers ?r @ [(''access-control-allow-origin'', ''*'')])"
    using k by auto
  show ?thesis
    using serve_simple [OF Some assms(1)] assms(2) Some
    by (simp add: simple_response_app_cors py_lower_header_names set_header_absent [OF a[folded py_lower_header_names(1)]]
                  set_header_absent [OF c[folded py_lower_header_names(2)]] Let_def)
qed

lemma serve_preserves_response_witness:
  "GET \<noteq> OPTIONS \<and> ''cookie'' \<notin> fst ` set [(''origin'', ''https://evil.example'')]
   \<and> serve (\<lambda>_. NoFile) \<lparr>rq_method = GET, rq_path = ''/'',
                     rq_headers = [(''origin'', ''https://evil.example'')], rq_body = JNull\<rparr>
     = \<lparr>resp_status = 200,
        resp_headers = [(''content-type'', ''application/json''), (''access-control-allow-origin'', ''*''),
                        (''access-control-allow-credentials'', ''true'')],
        resp_body = JsonBody (JObj [(''status'', JStr ''PDF Service Running'')])\<rparr>"
proof -
  let ?rq = "\<lparr>rq_method = GET, rq_path = ''/'', rq_headers = [(''origin'', ''https://evil.example'')],
                      rq_body = JNull\<rparr>"
  have h: "rq_method ?rq \<noteq> OPTIONS" "''cookie'' \<notin> fst ` set (rq_headers ?rq)" by simp_all
  show ?thesis using serve_preserves_response [OF h, of "\<lambda>_. NoFile"]
    by (simp add: handle_def read_root_def json_response_def)
qed

text \<open>C8. Because \<open>origins\<close> contains \<open>"*"\<close> and credentials are allowed, a request
  from any origin that carries a cookie gets its own origin echoed in
  \<open>access-control-allow-origin\<close> together with \<open>access-control-allow-credentials: true\<close>:
  every site may make credentialed requests, and the two listed origins have no effect.\<close>

lemma serve_credentialed_any_origin:
  assumes "map_of (rq_headers rq) ''origin'' = Some origin" "''cookie'' \<in> fst ` set (rq_headers rq)"
    "rq_method rq \<noteq> OPTIONS"
  shows "map_of (resp_headers (serve fs rq)) ''access-control-allow-origin'' = Some origin
       \<and> map_of (resp_headers (serve fs rq)) ''access-control-allow-credentials'' = Some ''true''"
  using assms
  by (simp add: serve_simple simple_response_app_cors allow_explicit_origin_def add_vary_header_def
                map_of_set_header py_lower_header_names Let_def split: option.split)

lemma serve_credentialed_any_origin_witness:
  "map_of [(''origin'', ''https://evil.example''), (''cookie'', ''sid=1'')] ''origin'' = Some ''https://evil.example''
   \<and> ''cookie'' \<in> fst ` set [(''origin'', ''https://evil.example''), (''cookie'', ''sid=1'')]
   \<and> map_of (resp_headers (serve (\<lambda>_. NoFile) \<lparr>rq_method = GET, rq_path = ''/'',
        rq_headers = [(''origin'', ''https://evil.example''), (''cookie'', ''sid=1'')], rq_body = JNull\<rparr>))
        ''access-control-allow-origin'' = Some ''https://evil.example''"
proof -
  let ?rq = "\<lparr>rq_method = GET, rq_path = ''/'',
             rq_headers = [(''origin'', ''https://evil.example''), (''cookie'', ''sid=1'')], rq_body = JNull\<rparr>"
  have h: "map_of (rq_headers ?rq) ''origin'' = Some ''https://evil.example''"
    "''cookie'' \<in> fst ` set (rq_headers ?rq)" "rq_method ?rq \<noteq> OPTIONS" by simp_all
  show ?thesis using serve_credentialed_any_origin [OF h, of "\<lambda>_. NoFile"] h by simp
qed

text \<open>C12. The middleware answers every preflight for a standard method itself, whatever
  the origin and the path: status 200, the origin echoed, credentials allowed, and the
  requested headers granted as asked.\<close>

lemma serve_preflight:
  assumes "map_of hs ''origin'' = Some origin" "map_of hs ''access-control-request-method'' = Some m"
    "m \<in> set ALL_METHODS" "map_of hs ''access-control-request-headers'' = rh"
  shows "serve fs \<lparr>rq_method = OPTIONS, rq_path = p, rq_headers = hs, rq_body = b\<rparr> =
    \<lparr>resp_status = 200,
     resp_headers = [(''vary'', ''Origin''),
                     (''access-control-allow-methods'', ''DELETE, GET, HEAD, OPTIONS, PATCH, POST, PUT''),
                     (''access-control-max-age'', ''600''),
                     (''access-control-allow-credentials'', ''true''),
                     (''access-control-allow-origin'', origin)]
                    @ (case rh of None \<Rightarrow> [] | Some r \<Rightarrow> [(''access-control-allow-headers'', r)])
                    @ [(''content-type'', ''text/plain; charset=utf-8'')],
     resp_body = TextBody ''OK''\<rparr>"
  using assms
  by (cases rh) (simp_all add: serve_def cors_app_def preflight_response_def app_cors_flags
        preflight_headers_def is_allowed_origin_def dict_set_def ALL_METHODS_def join_sep_def
        py_lower_header_names)

lemma serve_preflight_witness:
  "map_of [(''origin'', ''https://evil.example''), (''access-control-request-method'', ''POST'')] ''origin''
     = Some ''https://evil.example''
   \<and> map_of [(''origin'', ''https://evil.example''), (''access-control-request-method'', ''POST'')]
       ''access-control-request-method'' = Some ''POST''
   \<and> ''POST'' \<in> set ALL_METHODS
   \<and> resp_status (serve (\<lambda>_. NoFile) \<lparr>rq_method = OPTIONS, rq_path = ''/print/generate'',
        rq_headers = [(''origin'', ''https://evil.example''), (''access-control-request-method'', ''POST'')],
        rq_body = JNull\<rparr>) = 200"
proof -
  have h: "map_of [(''origin'', ''https://evil.example''), (''access-control-request-method'', ''POST'')] ''origin''
     = Some ''https://evil.example''"
    "map_of [(''origin'', ''https://evil.example''), (''access-control-request-method'', ''POST'')]
       ''access-control-request-method'' = Some ''POST''"
    "''POST'' \<in> set ALL_METHODS"
    "map_of [(''origin'', ''https://evil.example''), (''access-control-request-method'', ''POST'')]
       ''access-control-request-headers'' = None"
    by (simp_all add: ALL_METHODS_def)
  show ?thesis using serve_preflight [OF h, of "\<lambda>_. NoFile" "''/print/generate''" JNull] h by simp
qed

end
