(* ===== verification/Db.thy ===== *)
theory Db
  imports Server
begin

text \<open>
  \<open>src/pdf_service/db.py\<close>: at import, \<open>load_dotenv()\<close> adds the variables of a
  \<open>.env\<close> file to the process environment without overriding variables already set;
  \<open>get_db_connection()\<close> passes \<open>DATABASE_URL\<close> (or \<open>None\<close>) to \<open>psycopg2.connect\<close>
  and turns any exception into the value \<open>None\<close> after printing a line. The driver is a
  parameter \<open>connect\<close>: it returns a connection, or the message \<open>str(e)\<close> of the
  exception it raises. The rendering path never calls this module.
\<close>

type_synonym 'c connector = "string option \<Rightarrow> string + 'c"

text \<open>\<open>load_dotenv()\<close> with its default \<open>override=False\<close> (line 5).\<close>

definition load_dotenv :: "environ \<Rightarrow> environ \<Rightarrow> environ" where
  "load_dotenv environ dotenv = (\<lambda>k. case environ k of Some v \<Rightarrow> Some v | None \<Rightarrow> dotenv k)"

text \<open>\<open>get_db_connection()\<close> (lines 7--15): the connection or \<open>None\<close>, with the lines
  printed on standard output.\<close>

definition get_db_connection :: "'c connector \<Rightarrow> environ \<Rightarrow> 'c option \<times> string list" where
  "get_db_connection connect env =
     (case connect (env ''DATABASE_URL'') of
        Inr conn \<Rightarrow> (Some conn, [])
      | Inl msg \<Rightarrow> (None, [''Error connecting to database: '' @ msg]))"

end
