(* ===== verification/Spec2Isabelle.thy ===== *)
theory Spec2Isabelle
  imports Db
begin

text \<open>
  \<^bold>\<open>A verification development for the PDF slip service of TransportERP.\<close>

  The service (\<open>src/pdf_service/\<close>) renders a transport trip as a one-page landscape
  A4 PDF holding two slips side by side: a loading slip on the left half and a pay
  slip on the right half. \<open>app.py\<close> is a FastAPI application: \<open>POST /print/generate\<close>
  validates a \<open>GenerateRequest\<close> (trip data, options, slip numbers), calls
  \<open>generate_pdf_buffer\<close> of \<open>generate_pdf.py\<close>, and returns the PDF or, on any
  exception, a 500 response whose detail is the message; \<open>GET /\<close> is a health
  check; a CORS middleware wraps both; the \<open>__main__\<close> block reads \<open>PORT\<close>.
  \<open>generate_pdf_buffer\<close> draws a background image per selected half (when the file
  exists), builds a dict of field values with \<open>format_date\<close>, \<open>format_money\<close> and
  \<open>str()\<close>, and draws every key of the coordinate tables of \<open>coordinates.py\<close> that
  is in the dict, at \<open>offset + x * MM\<close>, \<open>SLIP_HEIGHT - y * MM\<close>. \<open>db.py\<close> is a
  connection helper that the rendering path never calls.

  \<^bold>\<open>Theories, and what they model.\<close>
  \<^item> \<open>Prelude\<close>: decimal digits and \<open>show_nat\<close>/\<open>read_digits\<close>, the comma grouping
    \<open>group3\<close> of the \<open>','\<close> format option, \<open>str.split\<close> as \<open>split_on\<close>, and
    exceptions as values: a
    computation that may raise has type \<open>pyexc + 'a\<close>, sequenced by \<open>ebind\<close>.
  \<^item> \<open>PyFloat\<close>: IEEE binary64 doubles (\<open>pyfloat\<close>, finite values \<open>Fin s m e\<close> with
    the canonical mantissa/exponent of a double), round-to-nearest-even \<open>round_pos\<close>,
    the arithmetic ReportLab's units and \<open>draw_text\<close> use, \<open>float(int)\<close> with its
    \<open>OverflowError\<close> (\<open>int_to_float\<close>), \<open>float(str)\<close> (\<open>float_of_str\<close>),
    \<open>'{:,.0f}'\<close> (\<open>format_f0_grouped\<close>) and \<open>repr\<close> of a float.
  \<^item> \<open>PyValue\<close>: the JSON values the framework decodes (\<open>jval\<close>), truthiness,
    \<open>dict.get\<close>, \<open>or\<close>, and \<open>str\<close>/\<open>repr\<close> with the 4300-digit limit of CPython.
  \<^item> \<open>PyDate\<close>: \<open>datetime.strptime(s, '%Y-%m-%d')\<close>, the C \<open>fromisoformat\<close> parser
    of CPython 3.11 (over the UTF-8 bytes of the string) and \<open>strftime('%d/%m/%Y')\<close>.
  \<^item> \<open>Formatters\<close>: \<open>format_date\<close> and \<open>format_money\<close> (\<open>generate_pdf.py\<close> lines
    105--125), every branch and the bare \<open>except\<close> included.
  \<^item> \<open>Coordinates\<close>: \<open>MM\<close>, the slip dimensions and the tables \<open>LOADING_SLIP\<close>,
    \<open>PAY_SLIP\<close> as association lists in literal order.
  \<^item> \<open>Canvas\<close>: the page constants (lines 8--11, from ReportLab's \<open>A4\<close>, \<open>mm\<close>,
    \<open>landscape\<close>), the ReportLab canvas as a record (page size, current page stream,
    finished pages) with \<open>setFont\<close>, \<open>drawString\<close>, \<open>drawImage\<close>, \<open>showPage\<close>,
    \<open>save\<close>, and \<open>draw_text\<close> (lines 15--32).
  \<^item> \<open>Composer\<close>: \<open>generate_pdf_buffer\<close> (lines 34--103) as \<open>left_half\<close>,
    \<open>right_half\<close>, \<open>loading_data\<close>, \<open>pay_data\<close>, \<open>driver_mobile\<close>, the table walk
    \<open>draw_fields\<close> and \<open>draw_background\<close>, with the file system as a parameter
    (absent, readable image, or unreadable file with an error message); and a pure
    specification \<open>slip_document\<close> of the page it draws.
  \<^item> \<open>Service\<close>: \<open>GenerateRequest\<close> validation (pydantic v2, where \<open>Optional[str]\<close>
    accepts only strings and null), \<open>read_root\<close>, \<open>generate_print\<close> and the routes
    with their 404, 405 (with its \<open>allow\<close> header) and 422 answers and the 307
    trailing-slash redirect of \<open>/print/generate/\<close> (\<open>app.py\<close> lines 26--48).
  \<^item> \<open>Server\<close>: the CORS configuration (lines 12--24) over a model of Starlette's
    \<open>CORSMiddleware\<close>, the served application \<open>serve\<close> (middleware around the routes),
    and the start-up block (lines 50--53) with CPython's \<open>int(str)\<close>.
  \<^item> \<open>Db\<close>: \<open>load_dotenv\<close> and \<open>get_db_connection\<close> of \<open>db.py\<close>, with the driver as
    a parameter.

  The library calls are modelled on CPython 3.11 on Linux and on ReportLab and
  Starlette as the service uses them. The models of \<open>float(str)\<close>, \<open>'{:,.0f}'\<close>,
  \<open>repr\<close>, \<open>strptime\<close>, \<open>fromisoformat\<close> and \<open>int(str)\<close> were tested
  against CPython 3.11 on generated inputs, with no disagreement. Strings are
  lists of Latin-1 characters.

  \<^bold>\<open>What is proved.\<close>
  \<^item> Composition (\<open>Composer\<close>): \<open>generate_pdf_buffer\<close> refines \<open>slip_document\<close>
    (\<open>generate_pdf_refines\<close>), proved from refinement lemmas per operation
    (\<open>draw_fields\<close> against \<open>field_ops\<close>, each half against its operation list). The
    canvas invariant is that drawing only appends to the current page. From it follow
    exactly one page (\<open>generate_pdf_one_page\<close>), totality on decoded input
    (\<open>generate_pdf_total\<close>), every table field drawn at its position
    (\<open>all_fields_drawn\<close>), the driver-number fallback, the \<open>PREVIEW\<close> default and
    the blank page.
  \<^item> Endpoint (\<open>Service\<close>, \<open>Server\<close>): 200 with the inline PDF on valid input, 500
    with \<open>str(e)\<close> on an exception, 422 on invalid options. For a request without a
    cookie the middleware returns the routes' response and only appends
    \<open>access-control-allow-origin: *\<close> and \<open>access-control-allow-credentials: true\<close>;
    with a cookie it echoes any origin with credentials; it answers every preflight
    itself.
  \<^item> Formatters: grouped integer amounts; for every double, the nearest integer
    with ties to even and the sign bit kept (\<open>-0\<close>); exactly which inputs give the
    empty string (\<open>None\<close> and \<open>""\<close> for \<open>format_money\<close>, every falsy value for
    \<open>format_date\<close>); pass-through of unparseable strings; overflow beyond
    \<open>2^1024\<close>; ISO dates to \<open>DD/MM/YYYY\<close>; the unpadded year for every date
    before the year 1000.
  \<^item> Library and start-up: exactness of \<open>float(int)\<close> up to \<open>2^53\<close>, overflow of
    \<open>round_pos\<close>, the nearest-even rounding of \<open>rne_div\<close>, the start-up port without
    range check, and the \<open>ValueError\<close> for every \<open>PORT\<close> value without a digit.
    \<open>Db\<close> is modelled but has no property of its own: its one function only
    sequences two parameters.

  \<^bold>\<open>Bounds and fuel.\<close> The only fuel is the shortest-\<open>repr\<close> search of
  \<open>float_repr\<close>. It tries 1 to 16 significant digits for the shortest string that
  reads back as the same double, and otherwise takes the correctly rounded 17 digits.
  17 digits always read back as the same double, so the bound never changes the result. Loops over
  strings are structural or \<open>function\<close>s with a \<open>measure\<close>.

  \<^bold>\<open>Not modelled.\<close> The PDF byte serialization of ReportLab (the document is its
  list of page operation streams), font metrics, and the decoding of PNG templates
  beyond readable or not. JSON decoding of the request body by the framework, whose
  output is the input \<open>jval\<close>, with \<open>wf_jval\<close> for what it can produce. The HTTP
  wire format and \<open>content-length\<close>; the scheme and host of a redirect's
  \<open>location\<close>. The uvicorn event loop and socket binding. The
  \<open>.env\<close> file syntax and the psycopg2 driver, which are parameters. Concrete
  evaluation of page coordinates in doubles takes about fifteen seconds per constant
  with \<open>simp\<close>, so positions are stated as the \<open>text_x\<close>/\<open>text_y\<close> terms the code
  computes rather than as numbers.
\<close>

end
